theory Spec2Isabelle
  imports Main "HOL-Library.Word" "HOL-Library.AList"
begin

unbundle bit_operations_syntax

chapter \<open>A shallow embedding of parts of cryptoscope/sbot\<close>

text \<open>
  Each section embeds one source file: pure functions as HOL functions, Go maps as
  maps or association lists, mutable state by explicit state passing, and every error
  return as a value. Calls into packages outside the repository (the file system, the
  crypto primitives, the luigi sinks) appear as parameters or as small models whose
  doc comment says so.
\<close>

type_synonym byte = "8 word"
type_synonym uint16 = "16 word"
type_synonym int64 = "64 word"

section \<open>private/box2/encoding.go\<close>

text \<open>
  \<^verbatim>\<open>binary.LittleEndian.PutUint16(buf[:], l)\<close> stores \<open>byte(l)\<close> at index 0 and
  \<open>byte(l >> 8)\<close> at index 1; the two bytes are appended to \<open>out\<close>.
\<close>

definition encodeUint16 :: "byte list \<Rightarrow> uint16 \<Rightarrow> byte list" where
  "encodeUint16 out l = out @ [ucast l, ucast (drop_bit 8 l)]"

text \<open>
  The loop of \<open>EncodeSLP\<close> over the variadic \<open>list\<close>; \<open>uint16(len(elem))\<close> is the
  conversion that keeps the low 16 bits, \<open>of_nat\<close> into \<open>16 word\<close>.
\<close>

fun EncodeSLP :: "byte list \<Rightarrow> byte list list \<Rightarrow> byte list" where
  "EncodeSLP out [] = out"
| "EncodeSLP out (elem # list) =
     EncodeSLP (encodeUint16 out (of_nat (length elem)) @ elem) list"

text \<open>
  The specification's reading of SLP, for comparison with the code: a length \<open>n\<close> as a
  little-endian uint16 is the byte \<open>n mod 256\<close> followed by the byte \<open>n div 256\<close>, and an
  element is encoded as that prefix followed by its bytes.
\<close>

definition le_uint16 :: "nat \<Rightarrow> byte list" where
  "le_uint16 n = [of_nat (n mod 256), of_nat (n div 256)]"

definition decode_le_uint16 :: "byte list \<Rightarrow> nat" where
  "decode_le_uint16 bs = (case bs of [b0, b1] \<Rightarrow> unat b0 + 256 * unat b1 | _ \<Rightarrow> 0)"

definition slp_element :: "byte list \<Rightarrow> byte list" where
  "slp_element elem = le_uint16 (length elem) @ elem"

section \<open>Errors\<close>

text \<open>
  Go \<open>error\<close> values. \<open>ErrNulled\<close> is margaret's sentinel, \<open>ErrNoSuchBlob\<close> the blob
  store's, \<open>EOS\<close> luigi's end of stream, \<open>ErrNotExist\<close> and \<open>ErrExist\<close> the operating
  system's answers that \<open>os.IsNotExist\<close> and \<open>os.IsExist\<close> recognise. \<open>Errorf\<close> is an
  error made from a message (\<open>errors.New\<close>, \<open>fmt.Errorf\<close>, \<open>errors.Errorf\<close>) and \<open>Wrap\<close>
  one that wraps another (\<open>errors.Wrap\<close>, \<open>fmt.Errorf\<close> with \<open>%w\<close>); \<open>Panic\<close> stands
  for a run-time panic, which ends the call without a result. A result
  \<open>error option\<close> is Go's \<open>error\<close> with \<open>None\<close> for \<open>nil\<close>.
\<close>

datatype error =
    ErrNulled
  | ErrNoSuchBlob
  | ErrNotExist
  | ErrExist
  | EOS
  | Errorf string
  | Wrap string error
  | Panic string

text \<open>\<open>errors.Wrap(err, msg)\<close> of github.com/pkg/errors: \<open>nil\<close> stays \<open>nil\<close>.\<close>

definition errors_Wrap :: "error option \<Rightarrow> string \<Rightarrow> error option" where
  "errors_Wrap err msg = (case err of None \<Rightarrow> None | Some e \<Rightarrow> Some (Wrap msg e))"

fun Cause :: "error \<Rightarrow> error" where
  "Cause (Wrap msg e) = Cause e"
| "Cause e = e"

text \<open>
  \<open>margaret.IsErrNulled\<close> (package go.cryptoscope.co/margaret, outside the repository):
  whether the error is, at its cause, the sentinel \<open>ErrNulled\<close>.
\<close>

definition IsErrNulled :: "error \<Rightarrow> bool" where
  "IsErrNulled err = (Cause err = ErrNulled)"

section \<open>References\<close>

text \<open>
  A feed reference is modelled by its canonical string, the value of \<open>ref.Ref()\<close> and of
  \<open>StoredAddr()\<close>: the feed sets and the author sublogs are keyed by it. Blob and message
  references keep their two fields.
\<close>

type_synonym FeedRef = string

record HashRef =
  Hash :: "byte list"
  Algo :: string

type_synonym BlobRef = HashRef
type_synonym MessageRef = HashRef

section \<open>sbot/replicate.go\<close>

text \<open>
  Modelled from the spec: the declaration of \<open>ssb.StrFeedSet\<close> is missing. It is a mutable
  set of feed references (here the list of its members, without repetition) with
  \<open>AddRef\<close>, \<open>Delete\<close>, \<open>Has\<close>, \<open>Count\<close> and \<open>List\<close>; \<open>List\<close> returns the members or
  an error, and since none of the sources decides which, the error is a field of the
  model.
\<close>

record StrFeedSet =
  members :: "FeedRef list"
  listErr :: "error option"

definition NewFeedSet :: StrFeedSet where
  "NewFeedSet = \<lparr>members = [], listErr = None\<rparr>"

definition AddRef :: "StrFeedSet \<Rightarrow> FeedRef \<Rightarrow> StrFeedSet" where
  "AddRef fs r = (if r \<in> set (members fs) then fs else fs\<lparr>members := members fs @ [r]\<rparr>)"

definition Delete :: "StrFeedSet \<Rightarrow> FeedRef \<Rightarrow> StrFeedSet" where
  "Delete fs r = fs\<lparr>members := removeAll r (members fs)\<rparr>"

definition Has :: "StrFeedSet \<Rightarrow> FeedRef \<Rightarrow> bool" where
  "Has fs r = (r \<in> set (members fs))"

definition List :: "StrFeedSet \<Rightarrow> error + FeedRef list" where
  "List fs = (case listErr fs of Some err \<Rightarrow> Inl err | None \<Rightarrow> Inr (members fs))"

text \<open>
  Modelled from the spec: the declarations of \<open>graph.Builder\<close> and of the graph it
  builds are missing. The updater uses \<open>Hops(from, max)\<close>, \<open>Build()\<close> and, on the built graph,
  \<open>BlockedList(from)\<close>; they are taken as given functions.
\<close>

record Graph =
  BlockedList :: "FeedRef \<Rightarrow> StrFeedSet"

record Builder =
  Hops :: "FeedRef \<Rightarrow> int \<Rightarrow> StrFeedSet"
  Build :: "error + Graph"

record lister =
  feedWants :: StrFeedSet
  blocked :: StrFeedSet

definition newLister :: lister where
  "newLister = \<lparr>feedWants = NewFeedSet, blocked = NewFeedSet\<rparr>"

text \<open>
  The function returned by \<open>makeUpdater\<close>, as a transformer of \<open>r.current\<close>. Both error
  returns leave the changes made so far in place; a failing \<open>blocked.List()\<close> skips the
  deletions only.
\<close>

definition makeUpdater :: "Builder \<Rightarrow> FeedRef \<Rightarrow> int \<Rightarrow> lister \<Rightarrow> lister" where
  "makeUpdater builder self hopCount current =
     (let newWants = Hops builder self hopCount in
      case List newWants of
        Inl err \<Rightarrow> current
      | Inr refs \<Rightarrow>
          let current = current\<lparr>feedWants := foldl AddRef (feedWants current) refs\<rparr> in
          case Build builder of
            Inl err \<Rightarrow> current
          | Inr g \<Rightarrow>
              let current = current\<lparr>blocked := BlockedList g self\<rparr> in
              case List (blocked current) of
                Inl err \<Rightarrow> current
              | Inr lst \<Rightarrow> current\<lparr>feedWants := foldl Delete (feedWants current) lst\<rparr>)"

text \<open>
  The loop of \<open>debounce\<close>, over the events its \<open>select\<close> and its registered sink see:
  a new sequence of the root log (which also resets the timer), a value that the sink
  rejects (an error, or a value that is not a sequence), the timer firing, and the
  context ending. \<open>work\<close> runs when the timer fires and the sequence seen last is not
  \<open>margaret.SeqEmpty\<close>. The state is that sequence and the lister. The length of the
  interval, \<open>15*time.Second\<close> in \<open>newGraphReplicator\<close>, is real time and has no
  counterpart here.
\<close>

definition SeqEmpty :: int where
  "SeqEmpty = - 1"

datatype debounce_event = NewSeq int | Rejected | TimerFired | CtxDone

fun debounce :: "(lister \<Rightarrow> lister) \<Rightarrow> debounce_event list \<Rightarrow> int \<times> lister
    \<Rightarrow> int \<times> lister" where
  "debounce work [] st = st"
| "debounce work (CtxDone # evs) st = st"
| "debounce work (NewSeq newSeq # evs) (seq, cur) = debounce work evs (newSeq, cur)"
| "debounce work (Rejected # evs) (seq, cur) = debounce work evs (seq, cur)"
| "debounce work (TimerFired # evs) (seq, cur) =
     (if seq \<noteq> SeqEmpty then debounce work evs (SeqEmpty, work cur)
      else debounce work evs (seq, cur))"

definition Block :: "lister \<Rightarrow> FeedRef \<Rightarrow> lister" where
  "Block current r = current\<lparr>blocked := AddRef (blocked current) r\<rparr>"

definition Unblock :: "lister \<Rightarrow> FeedRef \<Rightarrow> lister" where
  "Unblock current r = current\<lparr>blocked := Delete (blocked current) r\<rparr>"

definition Replicate :: "lister \<Rightarrow> FeedRef \<Rightarrow> lister" where
  "Replicate current r = current\<lparr>feedWants := AddRef (feedWants current) r\<rparr>"

definition DontReplicate :: "lister \<Rightarrow> FeedRef \<Rightarrow> lister" where
  "DontReplicate current r = current\<lparr>feedWants := Delete (feedWants current) r\<rparr>"

definition Authorize :: "lister \<Rightarrow> FeedRef \<Rightarrow> error option" where
  "Authorize l remote =
     (if Has (blocked l) remote then Some (Errorf ''peer blocked'')
      else if Has (feedWants l) remote then None
      else Some (Errorf ''nope - access denied''))"

text \<open>
  A builder for examples: its hop walk gives the feeds \<open>hops\<close> whatever the start and
  the bound, its graph builds, and everybody's block list is \<open>blocks\<close>.
\<close>

definition fixedBuilder :: "FeedRef list \<Rightarrow> FeedRef list \<Rightarrow> Builder" where
  "fixedBuilder hops blocks =
     \<lparr>Hops = (\<lambda>from mx. \<lparr>members = hops, listErr = None\<rparr>),
      Build = Inr \<lparr>BlockedList = (\<lambda>from. \<lparr>members = blocks, listErr = None\<rparr>)\<rparr>\<rparr>"

section \<open>plugins2/names/getSignifier.go\<close>

text \<open>
  Modelled from the spec: the declarations of the about store and of \<open>AboutInfo\<close> are
  missing.
  For a feed the store collects, per attribute, the value chosen by the feed itself and
  the values prescribed by others with their counts. \<open>Prescribed\<close> is a Go map; the list
  gives its entries in the order in which \<open>range\<close> happens to visit them.
\<close>

record AboutAttribute =
  Chosen :: string
  Prescribed :: "(string \<times> int) list"

record AboutInfo =
  Name :: AboutAttribute

record aboutStore =
  CollectedFor :: "FeedRef \<Rightarrow> error + AboutInfo"

record hGetSignifier =
  as :: aboutStore

text \<open>
  \<open>parseFeedRefFromArgs\<close> is defined elsewhere and is a parameter. The \<open>for ... range\<close>
  with its \<open>break\<close> takes the first key visited, if there is one.
\<close>

definition HandleAsync ::
    "('req \<Rightarrow> error + FeedRef) \<Rightarrow> hGetSignifier \<Rightarrow> 'req \<Rightarrow> error + string" where
  "HandleAsync parseFeedRefFromArgs h req =
     (case parseFeedRefFromArgs req of
        Inl err \<Rightarrow> Inl err
      | Inr ref \<Rightarrow>
          (case CollectedFor (as h) ref of
             Inl err \<Rightarrow> Inl (Wrap (''do not have about for: '' @ ref) err)
           | Inr ai \<Rightarrow>
               (let name = Chosen (Name ai) in
                if name = [] then
                  (let name = (case Prescribed (Name ai) of [] \<Rightarrow> name | (n, c) # rest \<Rightarrow> n)
                   in if name = [] then Inr ref else Inr name)
                else Inr name)))"

section \<open>multilogs/userfeeds.go\<close>

text \<open>
  The \<open>interface{}\<close> value of a log entry: an error (a nulled entry holds
  \<open>margaret.ErrNulled\<close>), a message, or a value of another type (named by its type).
  Of a message the update reads the author only, which can be \<open>nil\<close>.
\<close>

record Message =
  Author :: "FeedRef option"

datatype entry = VError error | VMessage Message | VOther string

text \<open>
  Modelled from the spec: the multilog (package margaret, outside the repository) maps
  an address to its sublog, a sequence of receive-sequences. \<open>Get\<close> opens the sublog of
  an address and \<open>Append\<close> adds to it; either can fail, which the two functions
  \<open>getErr\<close> and \<open>appendErr\<close> decide.
\<close>

record MultiLog =
  sublogs :: "string \<Rightarrow> int list"
  getErr :: "string \<Rightarrow> error option"
  appendErr :: "string \<Rightarrow> error option"

definition UserFeedsUpdate :: "int \<Rightarrow> entry \<Rightarrow> MultiLog \<Rightarrow> error option \<times> MultiLog" where
  "UserFeedsUpdate seq v mlog =
     (case v of
        VError nulled \<Rightarrow> if IsErrNulled nulled then (None, mlog) else (Some nulled, mlog)
      | VOther ty \<Rightarrow> (Some (Errorf (''error casting message. got type '' @ ty)), mlog)
      | VMessage abstractMsg \<Rightarrow>
          (case Author abstractMsg of
             None \<Rightarrow> (Some (Errorf ''nil author on message?!''), mlog)
           | Some author \<Rightarrow>
               (case getErr mlog author of
                  Some err \<Rightarrow> (Some (Wrap ''error opening sublog'' err), mlog)
                | None \<Rightarrow>
                    (case appendErr mlog author of
                       Some err \<Rightarrow> (Some (Wrap ''error appending new author message'' err), mlog)
                     | None \<Rightarrow>
                         (None, mlog\<lparr>sublogs := (sublogs mlog)(author := sublogs mlog author @ [seq])\<rparr>)))))"

section \<open>sbot/manifest.go and the plugin registrations\<close>

text \<open>
  The JSON object of \<open>manifestBlob\<close>, parsed: a member is either the kind of a method
  or a nested object of further members. The members are in the order of the source.
\<close>

datatype manifest = Kind string | Object "(string \<times> manifest) list"

definition manifestBlob :: manifest where
  "manifestBlob = Object
     [(''auth'', Kind ''async''),
      (''address'', Kind ''sync''),
      (''manifest'', Kind ''sync''),
      (''multiserverNet'', Object []),
      (''get'', Kind ''async''),
      (''createFeedStream'', Kind ''source''),
      (''createUserStream'', Kind ''source''),
      (''createWriteStream'', Kind ''sink''),
      (''links'', Kind ''source''),
      (''add'', Kind ''async''),
      (''getLatest'', Kind ''async''),
      (''latest'', Kind ''source''),
      (''latestSequence'', Kind ''async''),
      (''createSequenceStream'', Kind ''source''),
      (''createLogStream'', Kind ''source''),
      (''messagesByType'', Kind ''source''),
      (''createHistoryStream'', Kind ''source''),
      (''ebt'', Object [(''replicate'', Kind ''duplex'')]),
      (''partialReplication'', Object
         [(''getFeed'', Kind ''source''),
          (''getFeedReverse'', Kind ''source''),
          (''getTangle'', Kind ''async''),
          (''getMessagesOfType'', Kind ''source'')]),
      (''private'', Object [(''read'', Kind ''source'')]),
      (''tangles'', Kind ''source''),
      (''names'', Object
         [(''get'', Kind ''async''),
          (''getImageFor'', Kind ''async''),
          (''getSignifier'', Kind ''async'')]),
      (''friends'', Object
         [(''isFollowing'', Kind ''async''),
          (''isBlocking'', Kind ''async'')]),
      (''publish'', Kind ''async''),
      (''whoami'', Kind ''sync''),
      (''status'', Kind ''sync''),
      (''gossip'', Object
         [(''connect'', Kind ''async''),
          (''ping'', Kind ''duplex'')]),
      (''replicate'', Object [(''upto'', Kind ''source'')]),
      (''blobs'', Object
         [(''get'', Kind ''source''),
          (''add'', Kind ''sink''),
          (''rm'', Kind ''async''),
          (''ls'', Kind ''source''),
          (''has'', Kind ''async''),
          (''size'', Kind ''async''),
          (''want'', Kind ''async''),
          (''createWants'', Kind ''source'')])]"

text \<open>
  \<open>manifestHandler.HandleCall\<close> returns the handler's own string as raw JSON, whatever
  the request; \<open>initSbot\<close> makes the handler from \<open>manifestBlob\<close>.
\<close>

definition manifestHandler_HandleCall :: "manifest \<Rightarrow> 'req \<Rightarrow> manifest" where
  "manifestHandler_HandleCall h req = h"

text \<open>
  What a client reads from the manifest for a method such as \<open>blobs.has\<close>: the kind found
  by following the method's path through the nested objects, if there is one.
\<close>

fun manifestKind :: "string list \<Rightarrow> manifest \<Rightarrow> string option" where
  "manifestKind [] (Kind k) = Some k"
| "manifestKind [] (Object entries) = None"
| "manifestKind (m # ms) (Kind k) = None"
| "manifestKind (m # ms) (Object entries) =
     (case map_of entries m of None \<Rightarrow> None | Some sub \<Rightarrow> manifestKind ms sub)"

text \<open>
  A plugin, as \<open>initSbot\<close> registers it: its name, its method prefix, and the methods its
  handler mux has registered with their kinds. \<open>groups.New\<close> registers three async
  handlers under the package's \<open>method\<close>, \<open>groups\<close>.
\<close>

datatype plugin = Plugin string "string list" "(string list \<times> string) list"

fun handled :: "plugin \<Rightarrow> (string list \<times> string) list" where
  "handled (Plugin name prefix hs) = hs"

definition groups_method :: "string list" where
  "groups_method = [''groups'']"

definition groups_New :: plugin where
  "groups_New = Plugin (groups_method ! 0) groups_method
     [(groups_method @ [''create''], ''async''),
      (groups_method @ [''publishTo''], ''async''),
      (groups_method @ [''invite''], ''async'')]"

text \<open>
  The \<open>namedPlugin\<close> that serves the manifest, and the registrations on \<open>s.master\<close> in
  \<open>initSbot\<close> of the plugins whose source is at hand. The other registered plugins
  (publish, private, whoami, blobs, get, names, partial, rawread, gossip, replicate,
  friends, tangles, invites, control, status) are defined elsewhere and are left out.
\<close>

definition manifestPlugin :: plugin where
  "manifestPlugin = Plugin ''manifest'' [''manifest''] [([''manifest''], ''sync'')]"

definition master_registered :: "plugin list" where
  "master_registered = [groups_New, manifestPlugin]"

section \<open>message/legacy/types.go\<close>

text \<open>
  \<open>LegacyMessage\<close> and \<open>SignedLegacyMessage\<close>; the content is an arbitrary value (\<open>'c\<close>).
  The fields of the message carry the prefix \<open>msg\<close> because \<open>Author\<close> and \<open>Hash\<close> are
  taken.
\<close>

record 'c LegacyMessage =
  msgPrevious :: "MessageRef option"
  msgAuthor :: string
  msgSequence :: int
  msgTimestamp :: int
  msgHash :: string
  msgContent :: 'c

record 'c SignedLegacyMessage =
  LegacyMessage :: "'c LegacyMessage"
  Signature :: string

datatype 'c jsonable = Unsigned "'c LegacyMessage" | Signed "'c SignedLegacyMessage"

text \<open>
  The functions \<open>Sign\<close> calls that are defined elsewhere, as parameters: the JSON encoder
  of the standard library, the package's own \<open>EncodePreserveOrder\<close>, \<open>EncodeSignature\<close>
  and \<open>InternalV8Binary\<close>, \<open>auth.Sum\<close> (message, then key), \<open>ed25519.Sign\<close> (private key,
  then message), SHA-256, and the constant \<open>refs.RefAlgoMessageSSB1\<close>.
\<close>

record 'c signing =
  json_Encode :: "'c jsonable \<Rightarrow> error + byte list"
  EncodePreserveOrder :: "byte list \<Rightarrow> error + byte list"
  EncodeSignature :: "byte list \<Rightarrow> string"
  InternalV8Binary :: "byte list \<Rightarrow> error + byte list"
  auth_Sum :: "byte list \<Rightarrow> byte list \<Rightarrow> byte list"
  ed25519_Sign :: "byte list \<Rightarrow> byte list \<Rightarrow> byte list"
  sha256_Sum :: "byte list \<Rightarrow> byte list"
  RefAlgoMessageSSB1 :: string

definition jsonAndPreserve :: "'c signing \<Rightarrow> 'c jsonable \<Rightarrow> error + byte list" where
  "jsonAndPreserve env msg =
     (case json_Encode env msg of
        Inl err \<Rightarrow> Inl (Wrap ''jsonAndPreserve: 1st-pass json flattning failed'' err)
      | Inr buf \<Rightarrow>
          (case EncodePreserveOrder env buf of
             Inl err \<Rightarrow> Inl (Wrap ''jsonAndPreserve: preserver order failed'' err)
           | Inr pp \<Rightarrow> Inr pp))"

text \<open>
  \<open>LegacyMessage.Sign\<close>. \<open>ed25519.Sign\<close> panics on a private key that is not 64 bytes
  long; \<open>hmacSecret\<close> is \<open>None\<close> for the \<open>nil\<close> pointer.
\<close>

definition Sign ::
    "'c signing \<Rightarrow> 'c LegacyMessage \<Rightarrow> byte list \<Rightarrow> byte list option
      \<Rightarrow> error + (MessageRef \<times> byte list)" where
  "Sign env msg priv hmacSecret =
     (case jsonAndPreserve env (Unsigned msg) of
        Inl err \<Rightarrow> Inl (Wrap ''legacySign: error during sign prepare'' err)
      | Inr pp \<Rightarrow>
          (let pp = (case hmacSecret of None \<Rightarrow> pp | Some k \<Rightarrow> auth_Sum env pp k) in
           if length priv \<noteq> 64 then Inl (Panic ''ed25519: bad private key length'')
           else
             (let sig = ed25519_Sign env priv pp;
                  signedMsg = \<lparr>LegacyMessage = msg, Signature = EncodeSignature env sig\<rparr>
              in case jsonAndPreserve env (Signed signedMsg) of
                   Inl err \<Rightarrow> Inl (Wrap ''legacySign: error re-encoding signed message'' err)
                 | Inr ppWithSig \<Rightarrow>
                     (case InternalV8Binary env ppWithSig of
                        Inl err \<Rightarrow> Inl (Wrap ''legacySign: could not v8 escape message'' err)
                      | Inr v8warp \<Rightarrow>
                          Inr (\<lparr>Hash = sha256_Sum env v8warp, Algo = RefAlgoMessageSSB1 env\<rparr>,
                               ppWithSig)))))"

text \<open>
  The value that is signed, in the words of the specification: the canonical bytes of
  the unsigned message, or their HMAC under the configured key.
\<close>

definition toBeSigned :: "'c signing \<Rightarrow> byte list option \<Rightarrow> byte list \<Rightarrow> byte list" where
  "toBeSigned env hmacSecret canonical =
     (case hmacSecret of None \<Rightarrow> canonical | Some k \<Rightarrow> auth_Sum env canonical k)"

text \<open>
  Primitives for examples: every encoder succeeds and marks its input with a byte of
  its own, so that the order of the calls shows in the results.
\<close>

definition toySigning :: "nat signing" where
  "toySigning =
     \<lparr>json_Encode = (\<lambda>m. case m of Unsigned u \<Rightarrow> Inr [1, of_nat (msgContent u)]
                              | Signed sm \<Rightarrow> Inr (2 # of_nat (msgContent (LegacyMessage sm))
                                                  # map (of_nat \<circ> of_char) (Signature sm))),
      EncodePreserveOrder = (\<lambda>bs. Inr (10 # bs)),
      EncodeSignature = (\<lambda>sg. map (char_of \<circ> unat) sg),
      InternalV8Binary = (\<lambda>bs. Inr (20 # bs)),
      auth_Sum = (\<lambda>m k. 30 # k @ m),
      ed25519_Sign = (\<lambda>priv m. 40 # m),
      sha256_Sum = (\<lambda>bs. 50 # bs),
      RefAlgoMessageSSB1 = ''sha256''\<rparr>"

section \<open>blobstore/store.go: the blob store\<close>

subsection \<open>Library functions\<close>

text \<open>
  \<open>hex.EncodeToString\<close>: two lower-case hexadecimal digits per byte, the high nibble
  first.
\<close>

definition hexDigit :: "nat \<Rightarrow> char" where
  "hexDigit n = ''0123456789abcdef'' ! n"

definition hexByte :: "byte \<Rightarrow> string" where
  "hexByte b = [hexDigit (unat b div 16), hexDigit (unat b mod 16)]"

definition hex_EncodeToString :: "byte list \<Rightarrow> string" where
  "hex_EncodeToString src = concat (map hexByte src)"

text \<open>
  \<open>filepath.Join\<close>: the non-empty elements, separated by a slash. The cleaning of the
  result (double slashes, dot segments) is not modelled; the base path is taken as
  clean.
\<close>

fun joinSlash :: "string list \<Rightarrow> string" where
  "joinSlash [] = []"
| "joinSlash [e] = e"
| "joinSlash (e # e' # es) = e @ ''/'' @ joinSlash (e' # es)"

definition filepath_Join :: "string list \<Rightarrow> string" where
  "filepath_Join elems = joinSlash (filter (\<lambda>e. e \<noteq> []) elems)"

text \<open>\<open>fmt.Sprint\<close> of an integer: its decimal digits, with a minus sign when negative.\<close>

fun showNat :: "nat \<Rightarrow> string" where
  "showNat n = (if n < 10 then [''0123456789'' ! n]
                else showNat (n div 10) @ [''0123456789'' ! (n mod 10)])"

declare showNat.simps [simp del]

definition fmt_Sprint :: "int \<Rightarrow> string" where
  "fmt_Sprint i = (if i < 0 then CHR ''-'' # showNat (nat (- i)) else showNat (nat i))"

text \<open>
  The tests on errors: \<open>os.IsNotExist\<close>, \<open>os.IsExist\<close> and \<open>luigi.IsEOS\<close> (which looks at
  the cause of the error).
\<close>

definition os_IsNotExist :: "error \<Rightarrow> bool" where
  "os_IsNotExist err = (err = ErrNotExist)"

definition os_IsExist :: "error \<Rightarrow> bool" where
  "os_IsExist err = (err = ErrExist)"

definition luigi_IsEOS :: "error \<Rightarrow> bool" where
  "luigi_IsEOS err = (Cause err = EOS)"

subsection \<open>The file system\<close>

text \<open>
  The files the store sees are a map from paths to contents. Every system call can
  also fail for reasons outside the program; \<open>fault\<close> says which calls do, and with what
  error. Directories are not part of the state: \<open>MkdirAll\<close> succeeds or fails as
  \<open>fault\<close> says.
\<close>

datatype sysop =
    OpMkdirAll string
  | OpCreate string
  | OpClose string
  | OpRename string string
  | OpStat string
  | OpOpen string
  | OpRemove string

record filesystem =
  files :: "string \<rightharpoonup> byte list"
  fault :: "sysop \<Rightarrow> error option"

definition os_MkdirAll :: "filesystem \<Rightarrow> string \<Rightarrow> error option" where
  "os_MkdirAll fsy path = fault fsy (OpMkdirAll path)"

definition os_Create :: "filesystem \<Rightarrow> string \<Rightarrow> error + filesystem" where
  "os_Create fsy path =
     (case fault fsy (OpCreate path) of
        Some err \<Rightarrow> Inl err
      | None \<Rightarrow> Inr (fsy\<lparr>files := (files fsy)(path \<mapsto> [])\<rparr>))"

definition os_Close :: "filesystem \<Rightarrow> string \<Rightarrow> error option" where
  "os_Close fsy path = fault fsy (OpClose path)"

definition os_Rename :: "filesystem \<Rightarrow> string \<Rightarrow> string \<Rightarrow> error + filesystem" where
  "os_Rename fsy oldpath newpath =
     (case fault fsy (OpRename oldpath newpath) of
        Some err \<Rightarrow> Inl err
      | None \<Rightarrow>
          (case files fsy oldpath of
             None \<Rightarrow> Inl ErrNotExist
           | Some b \<Rightarrow> Inr (fsy\<lparr>files := ((files fsy)(oldpath := None))(newpath \<mapsto> b)\<rparr>)))"

text \<open>\<open>os.Stat\<close>, of which the store reads the size only, an \<open>int64\<close>.\<close>

definition os_Stat :: "filesystem \<Rightarrow> string \<Rightarrow> error + int64" where
  "os_Stat fsy path =
     (case fault fsy (OpStat path) of
        Some err \<Rightarrow> Inl err
      | None \<Rightarrow>
          (case files fsy path of
             None \<Rightarrow> Inl ErrNotExist
           | Some b \<Rightarrow> Inr (of_nat (length b))))"

text \<open>\<open>os.Open\<close>; the open file is modelled by its path.\<close>

definition os_Open :: "filesystem \<Rightarrow> string \<Rightarrow> error + string" where
  "os_Open fsy path =
     (case fault fsy (OpOpen path) of
        Some err \<Rightarrow> Inl err
      | None \<Rightarrow> (case files fsy path of None \<Rightarrow> Inl ErrNotExist | Some b \<Rightarrow> Inr path))"

definition os_Remove :: "filesystem \<Rightarrow> string \<Rightarrow> error + filesystem" where
  "os_Remove fsy path =
     (case fault fsy (OpRemove path) of
        Some err \<Rightarrow> Inl err
      | None \<Rightarrow>
          (case files fsy path of
             None \<Rightarrow> Inl ErrNotExist
           | Some b \<Rightarrow> Inr (fsy\<lparr>files := (files fsy)(path := None)\<rparr>)))"

text \<open>
  An \<open>io.Reader\<close> as \<open>io.Copy\<close> sees it: the bytes it delivers, and the error that ends
  the copy (\<open>None\<close> at a regular end of the input).
\<close>

record reader =
  content :: "byte list"
  readErr :: "error option"

subsection \<open>The store and its paths\<close>

text \<open>
  The sinks registered on the store's broadcast are named: the one \<open>NewWantManager\<close>
  registers, and the one the \<open>init\<close> of each \<open>wantProc\<close> registers.
\<close>

datatype sink_id = WantMgrSink | WantProcSink nat

record blobStore =
  basePath :: string
  fsys :: filesystem
  sinks :: "sink_id list"

definition New :: "filesystem \<Rightarrow> string \<Rightarrow> error + blobStore" where
  "New fsy base =
     (case os_MkdirAll fsy (filepath_Join [base, ''sha256'']) of
        Some err \<Rightarrow> Inl (Wrap ''error making dir for hash sha256'' err)
      | None \<Rightarrow>
          (case os_MkdirAll fsy (filepath_Join [base, ''tmp'']) of
             Some err \<Rightarrow> Inl (Wrap ''error making tmp dir'' err)
           | None \<Rightarrow> Inr \<lparr>basePath = base, fsys = fsy, sinks = []\<rparr>))"

text \<open>
  \<open>BlobRef.IsValid\<close> (package go.mindeco.de/ssb-refs, outside the repository), after the
  data model of the specification: the algorithm is \<open>sha256\<close> and the digest has 32
  bytes.
\<close>

definition IsValid :: "BlobRef \<Rightarrow> error option" where
  "IsValid ref =
     (if Algo ref \<noteq> ''sha256'' then Some (Errorf ''unknown hash algorithm'')
      else if length (Hash ref) \<noteq> 32 then Some (Errorf ''expected hash length 32'')
      else None)"

definition getPath :: "blobStore \<Rightarrow> BlobRef \<Rightarrow> error + string" where
  "getPath store ref =
     (case IsValid ref of
        Some err \<Rightarrow> Inl (Wrap ''blobs: invalid reference'' err)
      | None \<Rightarrow>
          (let hexHash = hex_EncodeToString (Hash ref);
               relPath = filepath_Join [Algo ref, take 2 hexHash, drop 2 hexHash]
           in Inr (filepath_Join [basePath store, relPath])))"

definition getHexDirPath :: "blobStore \<Rightarrow> BlobRef \<Rightarrow> error + string" where
  "getHexDirPath store ref =
     (case IsValid ref of
        Some err \<Rightarrow> Inl (Wrap ''blobs: invalid reference'' err)
      | None \<Rightarrow>
          (let hexHash = hex_EncodeToString (Hash ref);
               relPath = filepath_Join [Algo ref, take 2 hexHash]
           in Inr (filepath_Join [basePath store, relPath])))"

text \<open>\<open>now\<close> is the value of \<open>time.Now().UnixNano()\<close>.\<close>

definition getTmpPath :: "blobStore \<Rightarrow> int64 \<Rightarrow> string" where
  "getTmpPath store now = filepath_Join [basePath store, ''tmp'', fmt_Sprint (sint now)]"

definition Get :: "blobStore \<Rightarrow> BlobRef \<Rightarrow> error + string" where
  "Get store ref =
     (case getPath store ref of
        Inl err \<Rightarrow> Inl (Wrap ''error getting path for ref'' err)
      | Inr blobPath \<Rightarrow>
          (case os_Open (fsys store) blobPath of
             Inl err \<Rightarrow>
               if os_IsNotExist err then Inl ErrNoSuchBlob
               else Inl (Wrap ''error opening blob file'' err)
           | Inr f \<Rightarrow> Inr f))"

definition Size :: "blobStore \<Rightarrow> BlobRef \<Rightarrow> error + int64" where
  "Size store ref =
     (case getPath store ref of
        Inl err \<Rightarrow> Inl (Wrap ''error getting path'' err)
      | Inr blobPath \<Rightarrow>
          (case os_Stat (fsys store) blobPath of
             Inl err \<Rightarrow>
               if os_IsNotExist err then Inl ErrNoSuchBlob
               else Inl (Wrap ''error getting file info'' err)
           | Inr sz \<Rightarrow> Inr sz))"

subsection \<open>Notifications, the want manager and the want processes\<close>

datatype BlobStoreOp = BlobStoreOpPut | BlobStoreOpRm

record BlobStoreNotification =
  Op :: BlobStoreOp
  Ref :: BlobRef

text \<open>
  A \<open>luigi.Sink\<close> whose other end is not modelled (the \<open>out\<close> stream of a peer, the
  subscribers of the want broadcast): the values poured into it so far, and the answer
  its \<open>Pour\<close> gives.
\<close>

record 'a luigiSink =
  poured :: "'a list"
  pourErr :: "error option"

definition sink_Pour :: "'a luigiSink \<Rightarrow> 'a \<Rightarrow> error option \<times> 'a luigiSink" where
  "sink_Pour snk v = (pourErr snk, snk\<lparr>poured := poured snk @ [v]\<rparr>)"

text \<open>
  The struct \<open>want\<close>; its field \<open>Ref\<close> is \<open>wantRef\<close> here. The Go maps from
  \<open>ref.Ref()\<close> to \<open>int64\<close> are association lists keyed by the reference itself, which its
  string determines; \<open>map_of\<close> reads them.
\<close>

record want =
  wantRef :: BlobRef
  Dist :: int64

type_synonym wantMap = "(BlobRef \<times> int64) list"

record wantManager =
  wants :: wantMap
  wantSink :: "want luigiSink"

text \<open>
  A \<open>wantProc\<close>; \<open>fetches\<close> lists the references for which \<open>Pour\<close> has started a
  goroutine that fetches the blob from the peer.
\<close>

record wantProc =
  remoteWants :: wantMap
  out :: "wantMap luigiSink"
  fetches :: "BlobRef list"

text \<open>
  The store, the want manager made for it, and the want processes made by
  \<open>CreateWants\<close>, which point at each other in the source.
\<close>

record node =
  bs :: blobStore
  wmgr :: wantManager
  procs :: "wantProc list"

text \<open>The sink that \<open>NewWantManager\<close> registers on the changes of the store.\<close>

definition wantManager_onChange ::
    "BlobStoreNotification \<Rightarrow> wantManager \<Rightarrow> error option \<times> wantManager" where
  "wantManager_onChange n wm =
     (if Op n = BlobStoreOpPut \<and> map_of (wants wm) (Ref n) \<noteq> None
      then (None, wm\<lparr>wants := AList.delete (Ref n) (wants wm)\<rparr>)
      else (None, wm))"

text \<open>The sink that \<open>wantProc.init\<close> registers on the changes of the store.\<close>

definition wantProc_onChange ::
    "blobStore \<Rightarrow> BlobStoreNotification \<Rightarrow> wantProc \<Rightarrow> error option \<times> wantProc" where
  "wantProc_onChange store notif proc =
     (if map_of (remoteWants proc) (Ref notif) \<noteq> None then
        (case Size store (Ref notif) of
           Inl err \<Rightarrow> (Some (Wrap ''error getting blob size'' err), proc)
         | Inr sz \<Rightarrow>
             (let m = [(Ref notif, sz)];
                  (err, snk) = sink_Pour (out proc) m
              in (errors_Wrap err ''errors pouring into sink'', proc\<lparr>out := snk\<rparr>)))
      else (None, proc))"

fun run_sink :: "sink_id \<Rightarrow> BlobStoreNotification \<Rightarrow> node \<Rightarrow> error option \<times> node" where
  "run_sink WantMgrSink n nd =
     (let (err, wm) = wantManager_onChange n (wmgr nd) in (err, nd\<lparr>wmgr := wm\<rparr>))"
| "run_sink (WantProcSink i) n nd =
     (if i < length (procs nd) then
        (let (err, proc) = wantProc_onChange (bs nd) n (procs nd ! i)
         in (err, nd\<lparr>procs := (procs nd)[i := proc]\<rparr>))
      else (None, nd))"

text \<open>
  The \<open>Pour\<close> of a luigi broadcast (package go.cryptoscope.co/luigi, outside the
  repository): the value is poured into every registered sink, and an error comes back
  when a sink returned one (here the first).
\<close>

fun bcast_Pour :: "sink_id list \<Rightarrow> BlobStoreNotification \<Rightarrow> node \<Rightarrow> error option \<times> node" where
  "bcast_Pour [] n nd = (None, nd)"
| "bcast_Pour (s # ss) n nd =
     (let (err, nd1) = run_sink s n nd;
          (errs, nd2) = bcast_Pour ss n nd1
      in (case err of Some e \<Rightarrow> Some e | None \<Rightarrow> errs, nd2))"

subsection \<open>Put and Delete\<close>

text \<open>
  \<open>blobStore.Put\<close> and \<open>blobStore.Delete\<close> (\<open>blobStore_Delete\<close>, since the feed set has
  a \<open>Delete\<close>), on the node. \<open>Put\<close> comes with \<open>sha256\<close> the hash function and \<open>now\<close> the clock. An error
  return keeps what has been done to the file system before it: the temporary file
  stays. \<open>io.Copy\<close> through the \<open>MultiWriter\<close> gives the same bytes to the file and to
  the hash.
\<close>

definition Put ::
    "(byte list \<Rightarrow> byte list) \<Rightarrow> int64 \<Rightarrow> reader \<Rightarrow> node \<Rightarrow> (error + BlobRef) \<times> node" where
  "Put sha256 now blob nd =
     (let store = bs nd;
          tmpPath = getTmpPath store now
      in case os_Create (fsys store) tmpPath of
           Inl err \<Rightarrow> (Inl (Wrap ''blobstore.Put: error creating tmp file'' err), nd)
         | Inr fs1 \<Rightarrow>
             (let fs2 = fs1\<lparr>files := (files fs1)(tmpPath \<mapsto> content blob)\<rparr>;
                  nd2 = nd\<lparr>bs := store\<lparr>fsys := fs2\<rparr>\<rparr>;
                  ref = \<lparr>Hash = sha256 (content blob), Algo = ''sha256''\<rparr>
              in case (case readErr blob of
                         None \<Rightarrow> None
                       | Some err \<Rightarrow> if luigi_IsEOS err then None else Some err) of
                   Some err \<Rightarrow> (Inl (Wrap ''blobstore.Put: error copying'' err), nd2)
                 | None \<Rightarrow>
                     (case os_Close fs2 tmpPath of
                        Some err \<Rightarrow>
                          (Inl (Wrap ''blobstore.Put: error closing tmp file'' err), nd2)
                      | None \<Rightarrow>
                          (case getHexDirPath store ref of
                             Inl err \<Rightarrow>
                               (Inl (Wrap ''blobstore.Put: error getting hex dir path'' err), nd2)
                           | Inr hexDirPath \<Rightarrow>
                               (case (case os_MkdirAll fs2 hexDirPath of
                                        None \<Rightarrow> None
                                      | Some err \<Rightarrow> if os_IsExist err then None else Some err) of
                                  Some err \<Rightarrow>
                                    (Inl (Wrap ''blobstore.Put: error creating hex dir'' err), nd2)
                                | None \<Rightarrow>
                                    (case getPath store ref of
                                       Inl err \<Rightarrow>
                                         (Inl (Wrap ''blobstore.Put: error getting final path'' err),
                                          nd2)
                                     | Inr finalPath \<Rightarrow>
                                         (case os_Rename fs2 tmpPath finalPath of
                                            Inl err \<Rightarrow>
                                              (Inl (Wrap ''error moving blob from temp path to final path'' err),
                                               nd2)
                                          | Inr fs3 \<Rightarrow>
                                              (let nd3 = nd\<lparr>bs := store\<lparr>fsys := fs3\<rparr>\<rparr>;
                                                   (err, nd4) = bcast_Pour (sinks store)
                                                      \<lparr>Op = BlobStoreOpPut, Ref = ref\<rparr> nd3
                                               in case err of
                                                    Some e \<Rightarrow>
                                                      (Inl (Wrap ''blobstore.Put: error in notification handler'' e),
                                                       nd4)
                                                  | None \<Rightarrow> (Inr ref, nd4)))))))))"

definition blobStore_Delete :: "BlobRef \<Rightarrow> node \<Rightarrow> error option \<times> node" where
  "blobStore_Delete ref nd =
     (let store = bs nd in
      case getPath store ref of
        Inl err \<Rightarrow> (Some (Wrap ''error getting blob path'' err), nd)
      | Inr p \<Rightarrow>
          (case os_Remove (fsys store) p of
             Inl err \<Rightarrow>
               if os_IsNotExist err then (Some ErrNoSuchBlob, nd)
               else (Some (Wrap ''error removing file'' err), nd)
           | Inr fs1 \<Rightarrow>
               (let nd1 = nd\<lparr>bs := store\<lparr>fsys := fs1\<rparr>\<rparr>;
                    (err, nd2) = bcast_Pour (sinks store) \<lparr>Op = BlobStoreOpRm, Ref = ref\<rparr> nd1
                in (case err of
                      Some e \<Rightarrow> Some (Wrap ''error in delete notification handlers'' e)
                    | None \<Rightarrow> None, nd2))))"

subsection \<open>The want manager\<close>

definition emptySink :: "'a luigiSink" where
  "emptySink = \<lparr>poured = [], pourErr = None\<rparr>"

text \<open>\<open>NewWantManager\<close>: no wants, and its sink registered on the changes of the store.\<close>

definition NewWantManager :: "blobStore \<Rightarrow> node" where
  "NewWantManager store =
     \<lparr>bs = store\<lparr>sinks := sinks store @ [WantMgrSink]\<rparr>,
      wmgr = \<lparr>wants = [], wantSink = emptySink\<rparr>,
      procs = []\<rparr>"

definition Wants :: "wantManager \<Rightarrow> BlobRef \<Rightarrow> bool" where
  "Wants wm ref = (map_of (wants wm) ref \<noteq> None)"

definition WantWithDist :: "BlobRef \<Rightarrow> int64 \<Rightarrow> node \<Rightarrow> error option \<times> node" where
  "WantWithDist ref dist nd =
     (case Get (bs nd) ref of
        Inr f \<Rightarrow> (os_Close (fsys (bs nd)) f, nd)
      | Inl err \<Rightarrow>
          (let wm = (wmgr nd)\<lparr>wants := AList.update ref dist (wants (wmgr nd))\<rparr>;
               (err, snk) = sink_Pour (wantSink wm) \<lparr>wantRef = ref, Dist = dist\<rparr>
           in (errors_Wrap err ''error pouring want to broadcast'',
               nd\<lparr>wmgr := wm\<lparr>wantSink := snk\<rparr>\<rparr>)))"

definition Want :: "BlobRef \<Rightarrow> node \<Rightarrow> error option \<times> node" where
  "Want ref nd = WantWithDist ref (- 1) nd"

text \<open>
  \<open>CreateWants\<close> with the \<open>init\<close> of the new process: its sink is registered on the
  store, and the wants of the manager are poured into \<open>out\<close> (an error of that pour is
  logged only). The result names the new process by its index.
\<close>

definition CreateWants :: "wantMap luigiSink \<Rightarrow> node \<Rightarrow> nat \<times> node" where
  "CreateWants snk nd =
     (let i = length (procs nd);
          (err, snk1) = sink_Pour snk (wants (wmgr nd));
          proc = \<lparr>remoteWants = [], out = snk1, fetches = []\<rparr>
      in (i, nd\<lparr>bs := (bs nd)\<lparr>sinks := sinks (bs nd) @ [WantProcSink i]\<rparr>,
               procs := procs nd @ [proc]\<rparr>))"

subsection \<open>wantProc.Pour\<close>

text \<open>
  The loop of \<open>Pour\<close> over the received wants, with the process and \<open>mOut\<close> as its
  state. \<open>w.Dist < 0\<close> compares signed integers and \<open>w.Dist - 1\<close> is \<open>int64\<close>
  subtraction. A storage error other than \<open>ErrNoSuchBlob\<close> ends the call at once.
\<close>

fun pourLoop ::
    "blobStore \<Rightarrow> wantManager \<Rightarrow> want list \<Rightarrow> wantProc \<Rightarrow> wantMap
      \<Rightarrow> error option \<times> wantProc \<times> wantMap" where
  "pourLoop store wm [] proc mOut = (None, proc, mOut)"
| "pourLoop store wm (w # mIn) proc mOut =
     (if sint (Dist w) < 0 then
        (case Size store (wantRef w) of
           Inl err \<Rightarrow>
             if err = ErrNoSuchBlob then
               pourLoop store wm mIn
                 (proc\<lparr>remoteWants := AList.update (wantRef w) (Dist w - 1) (remoteWants proc)\<rparr>)
                 mOut
             else (Some (Wrap ''error getting blob size'' err), proc, mOut)
         | Inr s \<Rightarrow>
             pourLoop store wm mIn
               (proc\<lparr>remoteWants := AList.delete (wantRef w) (remoteWants proc)\<rparr>)
               (AList.update (wantRef w) s mOut))
      else if Wants wm (wantRef w) then
        pourLoop store wm mIn (proc\<lparr>fetches := fetches proc @ [wantRef w]\<rparr>) mOut
      else pourLoop store wm mIn proc mOut)"

definition wantProc_Pour ::
    "blobStore \<Rightarrow> wantManager \<Rightarrow> want list \<Rightarrow> wantProc \<Rightarrow> error option \<times> wantProc" where
  "wantProc_Pour store wm mIn proc =
     (case pourLoop store wm mIn proc [] of
        (Some err, proc1, mOut) \<Rightarrow> (Some err, proc1)
      | (None, proc1, mOut) \<Rightarrow>
          if length mOut = 0 then (None, proc1)
          else (let (err, snk) = sink_Pour (out proc1) mOut
                in (errors_Wrap err ''error responding to wants'', proc1\<lparr>out := snk\<rparr>)))"

subsection \<open>Predicates of the specification and examples\<close>

text \<open>
  For a received want the store either knows the size of the blob or reports that it
  has no such blob (\<open>sizeKnown\<close>; any other storage error makes \<open>Pour\<close> give up). A want
  with a negative distance whose blob the store has is answerable.
\<close>

definition sizeKnown :: "blobStore \<Rightarrow> want \<Rightarrow> bool" where
  "sizeKnown store w =
     (case Size store (wantRef w) of Inr s \<Rightarrow> True | Inl err \<Rightarrow> err = ErrNoSuchBlob)"

definition answerable :: "blobStore \<Rightarrow> want \<Rightarrow> bool" where
  "answerable store w =
     (sint (Dist w) < 0 \<and> (case Size store (wantRef w) of Inr s \<Rightarrow> True | Inl err \<Rightarrow> False))"

text \<open>
  The invariant of the specification: a visible blob path always holds bytes whose
  SHA-256 is the digest of the reference the path belongs to.
\<close>

definition store_ok :: "(byte list \<Rightarrow> byte list) \<Rightarrow> blobStore \<Rightarrow> bool" where
  "store_ok sha256 store =
     (\<forall>ref path b. getPath store ref = Inr path \<longrightarrow> files (fsys store) path = Some b
        \<longrightarrow> sha256 b = Hash ref)"

text \<open>
  A stand-in for SHA-256 in examples (the length of the input, then 31 zero bytes), an
  empty store under \<open>/b\<close> on a file system without faults, the same store holding the
  blob \<open>[1, 2, 3]\<close>, and a node that wants this blob.
\<close>

definition toySha256 :: "byte list \<Rightarrow> byte list" where
  "toySha256 b = of_nat (length b) #
     [0, 0, 0, 0, 0, 0, 0, 0, 0, 0, 0, 0, 0, 0, 0, 0,
      0, 0, 0, 0, 0, 0, 0, 0, 0, 0, 0, 0, 0, 0, 0]"

definition exStore :: blobStore where
  "exStore = \<lparr>basePath = ''/b'',
              fsys = \<lparr>files = Map.empty, fault = (\<lambda>call. None)\<rparr>,
              sinks = []\<rparr>"

definition exBlob :: reader where
  "exBlob = \<lparr>content = [1, 2, 3], readErr = None\<rparr>"

definition exRef :: BlobRef where
  "exRef = \<lparr>Hash = toySha256 [1, 2, 3], Algo = ''sha256''\<rparr>"

definition exRef2 :: BlobRef where
  "exRef2 = \<lparr>Hash = toySha256 [], Algo = ''sha256''\<rparr>"

definition exPath :: string where
  "exPath = ''/b/sha256/03/00000000000000000000000000000000000000000000000000000000000000''"

definition exStoreHave :: blobStore where
  "exStoreHave = \<lparr>basePath = ''/b'',
                  fsys = \<lparr>files = [exPath \<mapsto> [1, 2, 3]], fault = (\<lambda>call. None)\<rparr>,
                  sinks = []\<rparr>"

text \<open>
  The same store on a file system where \<open>os.Stat\<close> of the path of \<open>exRef2\<close> fails for a
  reason other than the file missing.
\<close>

definition exStoreFault :: blobStore where
  "exStoreFault =
     \<lparr>basePath = ''/b'',
      fsys = \<lparr>files = [exPath \<mapsto> [1, 2, 3]],
              fault = (\<lambda>call.
                if call = OpStat ''/b/sha256/00/00000000000000000000000000000000000000000000000000000000000000''
                then Some (Errorf ''permission denied'') else None)\<rparr>,
      sinks = []\<rparr>"

definition exNode :: node where
  "exNode = snd (Want exRef (NewWantManager exStore))"

definition exPeerNode :: node where
  "exPeerNode =
     \<lparr>bs = \<lparr>basePath = ''/b'',
             fsys = \<lparr>files = Map.empty, fault = (\<lambda>call. None)\<rparr>,
             sinks = [WantMgrSink, WantProcSink 0]\<rparr>,
      wmgr = \<lparr>wants = [(exRef, - 1)], wantSink = emptySink\<rparr>,
      procs = [\<lparr>remoteWants = [(exRef, - 2)], out = emptySink, fetches = []\<rparr>]\<rparr>"

definition exWants :: "want list" where
  "exWants = [\<lparr>wantRef = exRef, Dist = - 1\<rparr>, \<lparr>wantRef = exRef2, Dist = - 2\<rparr>]"

definition exProc :: wantProc where
  "exProc = \<lparr>remoteWants = [(exRef, - 3)], out = emptySink, fetches = []\<rparr>"

section \<open>Properties of the SLP encoding\<close>

lemma ucast_low_byte:
  "(ucast (of_nat n :: uint16) :: byte) = of_nat (n mod 256)"
proof -
  have "unat (ucast (of_nat n :: uint16) :: byte) = unat (of_nat (n mod 256) :: byte)"
    by (simp add: unsigned_ucast_eq unsigned_of_nat take_bit_eq_mod mod_mod_cancel)
  then show ?thesis by (simp only: word_unat_eq_iff)
qed

lemma ucast_high_byte:
  "(ucast (drop_bit 8 (of_nat n :: uint16)) :: byte) = of_nat (n div 256)"
proof -
  have "n div 256 = drop_bit 8 n"
    by (simp add: drop_bit_eq_div)
  moreover have "unat (ucast (drop_bit 8 (of_nat n :: uint16)) :: byte)
      = unat (of_nat (drop_bit 8 n) :: byte)"
    by (simp add: unsigned_ucast_eq unsigned_of_nat unat_drop_bit_eq drop_bit_take_bit)
  ultimately show ?thesis by (simp only: word_unat_eq_iff)
qed

lemma encodeUint16_of_nat: "encodeUint16 dst (of_nat n) = dst @ le_uint16 n"
  by (simp add: encodeUint16_def le_uint16_def ucast_low_byte ucast_high_byte)

lemma decode_le_uint16_inverse: "n < 2 ^ 16 \<Longrightarrow> decode_le_uint16 (le_uint16 n) = n"
  by (simp add: decode_le_uint16_def le_uint16_def unat_of_nat)

lemma EncodeSLP_concat: "EncodeSLP dst list = dst @ concat (map slp_element list)"
  by (induction list arbitrary: dst) (simp_all add: encodeUint16_of_nat slp_element_def)

lemma slp_element_split:
  "length elem < 2 ^ 16 \<Longrightarrow>
     decode_le_uint16 (take 2 (slp_element elem)) = length elem \<and>
     drop 2 (slp_element elem) = elem"
  using decode_le_uint16_inverse [of "length elem"]
  by (simp add: slp_element_def le_uint16_def)

text \<open>
  Claim C9. For every list of byte strings, each shorter than \<open>2 ^ 16\<close> bytes,
  \<open>EncodeSLP\<close> appends to \<open>out\<close>, for each element in order, the element's length as a
  little-endian uint16 followed by the element's bytes, and nothing else: the result is
  \<open>out\<close> followed by the concatenation of the encoded elements, the two prefix bytes of
  each element decode to its length, and the rest of it is the element itself. An empty
  list appends nothing.
\<close>

theorem EncodeSLP_length_prefixed:
  assumes "list_all (\<lambda>elem. length elem < 2 ^ 16) list"
  shows "EncodeSLP dst list = dst @ concat (map slp_element list) \<and>
         list_all (\<lambda>elem. decode_le_uint16 (take 2 (slp_element elem)) = length elem \<and>
                           drop 2 (slp_element elem) = elem) list \<and>
         EncodeSLP dst [] = dst"
proof -
  have "list_all (\<lambda>elem. decode_le_uint16 (take 2 (slp_element elem)) = length elem \<and>
                          drop 2 (slp_element elem) = elem) list"
    using assms by (induction list) (simp_all add: slp_element_split)
  then show ?thesis by (simp add: EncodeSLP_concat)
qed

theorem EncodeSLP_length_prefixed_witness:
  "list_all (\<lambda>elem. length elem < 2 ^ 16) [[1, 2, 3], [], replicate 300 (9 :: byte)] \<and>
   EncodeSLP [7] [[1, 2, 3], [], replicate 300 9]
     = [7] @ ([3, 0] @ [1, 2, 3]) @ ([0, 0] @ []) @ ([44, 1] @ replicate 300 9)"
  using EncodeSLP_length_prefixed [of "[[1, 2, 3], [], replicate 300 (9 :: byte)]" "[7]"]
  by (simp add: slp_element_def le_uint16_def)

section \<open>Properties of the replicator\<close>

lemma members_foldl_AddRef:
  "set (members (foldl AddRef fs rs)) = set (members fs) \<union> set rs"
  by (induction rs arbitrary: fs) (auto simp: AddRef_def)

lemma members_foldl_Delete:
  "set (members (foldl Delete fs rs)) = set (members fs) - set rs"
  by (induction rs arbitrary: fs) (auto simp: Delete_def)

lemma List_Inr: "List fs = Inr rs \<Longrightarrow> rs = members fs"
  by (auto simp: List_def split: option.splits)

text \<open>
  The debounce loop runs the work once for a timer event that follows new sequences,
  and not at all for a timer event with nothing pending.
\<close>

lemma debounce_runs_work:
  "debounce work [NewSeq 3, TimerFired] (SeqEmpty, cur) = (SeqEmpty, work cur) \<and>
   debounce work [TimerFired] (SeqEmpty, cur) = (SeqEmpty, cur) \<and>
   debounce work [NewSeq 3, NewSeq 4, TimerFired, TimerFired] (SeqEmpty, cur)
     = (SeqEmpty, work cur)"
  by (simp add: SeqEmpty_def)

text \<open>
  A blocked feed is denied whatever else holds, and the two error returns of the
  updater: a failing hop list changes nothing, a failing graph build leaves the block
  list as it was.
\<close>

lemma Authorize_blocked: "Has (blocked l) x \<Longrightarrow> Authorize l x \<noteq> None"
  by (simp add: Authorize_def)

lemma makeUpdater_hops_error:
  "List (Hops builder self hopCount) = Inl err \<Longrightarrow>
   makeUpdater builder self hopCount current = current"
  by (simp add: makeUpdater_def)

lemma makeUpdater_build_error:
  "List (Hops builder self hopCount) = Inr refs \<Longrightarrow> Build builder = Inl err \<Longrightarrow>
   blocked (makeUpdater builder self hopCount current) = blocked current \<and>
   set (members (feedWants (makeUpdater builder self hopCount current)))
     = set (members (feedWants current)) \<union> set refs"
  by (simp add: makeUpdater_def members_foldl_AddRef)

text \<open>
  Claim C1, as stated, fails: the updater adds the feeds of the hop walk to \<open>feedWants\<close>
  and deletes the blocked ones, but never removes a feed that has left the hop range.
  With \<open>A\<close> following \<open>B\<close> and \<open>B\<close> following \<open>D\<close>, a first recomputation (hops \<open>B\<close>,
  \<open>D\<close>) wants \<open>D\<close>; after \<open>B\<close> drops \<open>D\<close>, a second recomputation (hops \<open>B\<close> only, nobody
  blocked) still authorizes \<open>D\<close>, which is outside the current hop range and in
  \<open>feedWants\<close>.
\<close>

theorem Authorize_outside_hops_counterexample:
  "Authorize
     (makeUpdater (fixedBuilder [''@B''] []) ''@A'' 2
        (makeUpdater (fixedBuilder [''@B'', ''@D''] []) ''@A'' 2 newLister)) ''@D'' = None \<and>
   ''@D'' \<notin> set (members (Hops (fixedBuilder [''@B''] []) ''@A'' 2)) \<and>
   Has (feedWants
     (makeUpdater (fixedBuilder [''@B''] []) ''@A'' 2
        (makeUpdater (fixedBuilder [''@B'', ''@D''] []) ''@A'' 2 newLister))) ''@D''"
  by (simp add: makeUpdater_def fixedBuilder_def Authorize_def Has_def List_def AddRef_def
      Delete_def newLister_def NewFeedSet_def)

text \<open>
  Claim C1, amended. After a recomputation in which the hop list, the graph build and
  the block list succeed, \<open>blocked\<close> is the graph's block list of \<open>self\<close>, \<open>feedWants\<close> is
  the previous \<open>feedWants\<close> united with \<open>hops(self, hopCount)\<close>, without the blocked
  feeds, and \<open>Authorize x\<close> returns \<open>nil\<close> exactly when \<open>x\<close> is in that set. So every
  blocked feed is denied and is not in \<open>feedWants\<close>, every feed of the hop range that is
  not blocked is authorized, and for a fresh replicator (empty \<open>feedWants\<close>)
  \<open>Authorize x\<close> holds exactly for \<open>x\<close> in \<open>hops(self, hopCount)\<close> without the blocked
  feeds.
\<close>

theorem makeUpdater_Authorize:
  assumes "List (Hops builder self hopCount) = Inr refs"
    and "Build builder = Inr g"
    and "List (BlockedList g self) = Inr lst"
  shows "(Authorize (makeUpdater builder self hopCount current) x = None) =
           (x \<in> (set (members (feedWants current)) \<union> set (members (Hops builder self hopCount)))
                  - set (members (BlockedList g self))) \<and>
         (Authorize (makeUpdater builder self hopCount newLister) x = None) =
           (x \<in> set (members (Hops builder self hopCount)) - set (members (BlockedList g self))) \<and>
         blocked (makeUpdater builder self hopCount current) = BlockedList g self \<and>
         set (members (feedWants (makeUpdater builder self hopCount current))) =
           (set (members (feedWants current)) \<union> set (members (Hops builder self hopCount)))
             - set (members (BlockedList g self))"
  using assms List_Inr [OF assms(1)] List_Inr [OF assms(3)]
  by (auto simp: makeUpdater_def Authorize_def Has_def Let_def newLister_def NewFeedSet_def
      members_foldl_AddRef members_foldl_Delete)

text \<open>
  The scenario of the specification: \<open>A\<close> reaches \<open>B\<close> and \<open>C\<close> within two hops, \<open>D\<close> is
  further away, and \<open>X\<close>, also within two hops, is blocked. On a fresh replicator \<open>B\<close> is
  authorized, \<open>D\<close> and \<open>X\<close> are not, and \<open>feedWants\<close> holds \<open>B\<close> and \<open>C\<close> only.
\<close>

theorem makeUpdater_Authorize_witness:
  "List (Hops (fixedBuilder [''@B'', ''@C'', ''@X''] [''@X'']) ''@A'' 2)
     = Inr [''@B'', ''@C'', ''@X''] \<and>
   Build (fixedBuilder [''@B'', ''@C'', ''@X''] [''@X''])
     = Inr \<lparr>BlockedList = (\<lambda>from. \<lparr>members = [''@X''], listErr = None\<rparr>)\<rparr> \<and>
   List (BlockedList \<lparr>BlockedList = (\<lambda>from. \<lparr>members = [''@X''], listErr = None\<rparr>)\<rparr> ''@A'')
     = Inr [''@X''] \<and>
   Authorize (makeUpdater (fixedBuilder [''@B'', ''@C'', ''@X''] [''@X'']) ''@A'' 2 newLister)
     ''@B'' = None \<and>
   Authorize (makeUpdater (fixedBuilder [''@B'', ''@C'', ''@X''] [''@X'']) ''@A'' 2 newLister)
     ''@D'' \<noteq> None \<and>
   Authorize (makeUpdater (fixedBuilder [''@B'', ''@C'', ''@X''] [''@X'']) ''@A'' 2 newLister)
     ''@X'' \<noteq> None \<and>
   set (members (feedWants
     (makeUpdater (fixedBuilder [''@B'', ''@C'', ''@X''] [''@X'']) ''@A'' 2 newLister)))
     = {''@B'', ''@C''} \<and>
   \<not> Has (feedWants
     (makeUpdater (fixedBuilder [''@B'', ''@C'', ''@X''] [''@X'']) ''@A'' 2 newLister)) ''@X''"
proof -
  let ?b = "fixedBuilder [''@B'', ''@C'', ''@X''] [''@X'']"
  let ?g = "\<lparr>BlockedList = (\<lambda>from. \<lparr>members = [''@X''], listErr = None\<rparr>)\<rparr>"
  have l: "List (Hops ?b ''@A'' 2) = Inr [''@B'', ''@C'', ''@X'']"
    by (simp add: fixedBuilder_def List_def)
  have g: "Build ?b = Inr ?g"
    by (simp add: fixedBuilder_def)
  have bl: "List (BlockedList ?g ''@A'') = Inr [''@X'']"
    by (simp add: List_def)
  have hops: "members (Hops ?b ''@A'' 2) = [''@B'', ''@C'', ''@X'']"
    by (simp add: fixedBuilder_def)
  note a = makeUpdater_Authorize [OF l g bl, where current = newLister]
  have s: "set (members (feedWants (makeUpdater ?b ''@A'' 2 newLister))) = {''@B'', ''@C''}"
    using a [where x = "''@X''"] by (auto simp: hops newLister_def NewFeedSet_def)
  show ?thesis
    using a [where x = "''@B''"] a [where x = "''@D''"] a [where x = "''@X''"] l g bl s
    by (simp add: hops newLister_def NewFeedSet_def Has_def)
qed

section \<open>Properties of the names plugin\<close>

text \<open>
  Claim C8. When the arguments give the feed \<open>ref\<close> and the about store has collected,
  for \<open>ref\<close>, a record whose chosen name (the one from a self-authored about message) is
  not empty, \<open>getSignifier\<close> returns that chosen name, whatever names others prescribed.
\<close>

theorem getSignifier_chosen_name:
  assumes "parseFeedRefFromArgs req = Inr ref"
    and "CollectedFor (as h) ref = Inr ai"
    and "Chosen (Name ai) \<noteq> []"
  shows "HandleAsync parseFeedRefFromArgs h req = Inr (Chosen (Name ai))"
  using assms by (simp add: HandleAsync_def)

theorem getSignifier_chosen_name_witness:
  "HandleAsync Inr
     \<lparr>as = \<lparr>CollectedFor = (\<lambda>ref. Inr
        \<lparr>Name = \<lparr>Chosen = ''N1'', Prescribed = [(''N2'', 1)]\<rparr>\<rparr>)\<rparr>\<rparr> ''@A''
   = Inr ''N1''"
  using getSignifier_chosen_name [of Inr "''@A''" "''@A''"
      "\<lparr>as = \<lparr>CollectedFor = (\<lambda>ref. Inr
        \<lparr>Name = \<lparr>Chosen = ''N1'', Prescribed = [(''N2'', 1)]\<rparr>\<rparr>)\<rparr>\<rparr>"
      "\<lparr>Name = \<lparr>Chosen = ''N1'', Prescribed = [(''N2'', 1)]\<rparr>\<rparr>"]
  by simp

text \<open>
  Without a chosen name the handler falls back to a prescribed one, and to the
  reference itself when there is none.
\<close>

lemma getSignifier_fallbacks:
  "HandleAsync Inr
     \<lparr>as = \<lparr>CollectedFor = (\<lambda>ref. Inr
        \<lparr>Name = \<lparr>Chosen = [], Prescribed = [(''N2'', 1)]\<rparr>\<rparr>)\<rparr>\<rparr> ''@A'' = Inr ''N2'' \<and>
   HandleAsync Inr
     \<lparr>as = \<lparr>CollectedFor = (\<lambda>ref. Inr
        \<lparr>Name = \<lparr>Chosen = [], Prescribed = []\<rparr>\<rparr>)\<rparr>\<rparr> ''@A'' = Inr ''@A''"
  by (simp add: HandleAsync_def)

section \<open>Properties of the UserFeeds update\<close>

text \<open>
  Claim C6. For an entry whose value is the Nulled sentinel error the update returns
  \<open>nil\<close> and leaves the multilog, hence every sublog, as it was; for an entry whose
  value is any other error it returns that very error, again without touching the
  multilog.
\<close>

theorem UserFeedsUpdate_error_entries:
  "UserFeedsUpdate seq (VError err) mlog = ((if IsErrNulled err then None else Some err), mlog) \<and>
   UserFeedsUpdate seq (VError ErrNulled) mlog = (None, mlog) \<and>
   IsErrNulled ErrNulled"
  by (simp add: UserFeedsUpdate_def IsErrNulled_def)

theorem UserFeedsUpdate_error_entries_witness:
  "UserFeedsUpdate 7 (VError ErrNulled)
     \<lparr>sublogs = (\<lambda>a. []), getErr = (\<lambda>a. None), appendErr = (\<lambda>a. None)\<rparr>
     = (None, \<lparr>sublogs = (\<lambda>a. []), getErr = (\<lambda>a. None), appendErr = (\<lambda>a. None)\<rparr>) \<and>
   UserFeedsUpdate 7 (VError (Errorf ''disk''))
     \<lparr>sublogs = (\<lambda>a. []), getErr = (\<lambda>a. None), appendErr = (\<lambda>a. None)\<rparr>
     = (Some (Errorf ''disk''),
        \<lparr>sublogs = (\<lambda>a. []), getErr = (\<lambda>a. None), appendErr = (\<lambda>a. None)\<rparr>)"
  using UserFeedsUpdate_error_entries [of 7 "Errorf ''disk''"
      "\<lparr>sublogs = (\<lambda>a. []), getErr = (\<lambda>a. None), appendErr = (\<lambda>a. None)\<rparr>"]
  by (simp add: IsErrNulled_def)

text \<open>A message entry, by contrast, is appended to its author's sublog.\<close>

lemma UserFeedsUpdate_message:
  "getErr mlog author = None \<Longrightarrow> appendErr mlog author = None \<Longrightarrow>
   UserFeedsUpdate seq (VMessage \<lparr>Author = Some author\<rparr>) mlog
     = (None, mlog\<lparr>sublogs := (sublogs mlog)(author := sublogs mlog author @ [seq])\<rparr>)"
  by (simp add: UserFeedsUpdate_def)

section \<open>Properties of the manifest\<close>

text \<open>
  Claim C7, as stated, fails: \<open>groups.New\<close> registers \<open>groups.create\<close> as an async method
  and \<open>initSbot\<close> registers that plugin on the master mux, but the manifest that the
  \<open>manifest\<close> call returns has no member \<open>groups\<close> at all.
\<close>

theorem manifest_misses_groups_counterexample:
  "(groups_method @ [''create''], ''async'') \<in> set (handled groups_New) \<and>
   groups_New \<in> set master_registered \<and>
   manifestKind [''groups'', ''create''] (manifestHandler_HandleCall manifestBlob ()) = None \<and>
   manifestKind [''groups''] (manifestHandler_HandleCall manifestBlob ()) = None"
  by (simp add: groups_New_def groups_method_def master_registered_def
      manifestHandler_HandleCall_def manifestBlob_def)

text \<open>
  Claim C7, amended. The \<open>manifest\<close> call returns, for every request, the same
  hard-coded JSON object, which is not derived from the handler muxes. It gives a kind
  to each of the methods of the replication, feed, graph-query, blob, private-read,
  names and tangles surface listed below.
\<close>

theorem manifest_fixed_map:
  "manifestHandler_HandleCall manifestBlob req = manifestBlob \<and>
   map (\<lambda>m. manifestKind m manifestBlob)
     [[''createHistoryStream''], [''createUserStream''], [''createLogStream''],
      [''createFeedStream''], [''get''], [''publish''], [''whoami''], [''manifest''],
      [''friends'', ''isFollowing''], [''friends'', ''isBlocking''],
      [''replicate'', ''upto''], [''private'', ''read''], [''tangles''],
      [''names'', ''get''], [''names'', ''getSignifier''], [''names'', ''getImageFor''],
      [''blobs'', ''get''], [''blobs'', ''has''], [''blobs'', ''size''], [''blobs'', ''add''],
      [''blobs'', ''rm''], [''blobs'', ''ls''], [''blobs'', ''want''],
      [''blobs'', ''createWants'']]
   = map Some
     [''source'', ''source'', ''source'', ''source'', ''async'', ''async'', ''sync'', ''sync'',
      ''async'', ''async'', ''source'', ''source'', ''source'', ''async'', ''async'', ''async'',
      ''source'', ''async'', ''async'', ''sink'', ''async'', ''source'', ''async'', ''source'']"
  by (simp add: manifestHandler_HandleCall_def manifestBlob_def)

theorem manifest_fixed_map_witness:
  "manifestKind [''blobs'', ''has''] (manifestHandler_HandleCall manifestBlob ()) = Some ''async'' \<and>
   manifestKind [''whoami''] (manifestHandler_HandleCall manifestBlob ()) = Some ''sync''"
  using manifest_fixed_map [of "()"] by simp

text \<open>
  The other methods of \<open>groups\<close>, and \<open>friends.hops\<close>, of which the command-line client
  makes use, have no entry either.
\<close>

lemma manifest_other_misses:
  "map (\<lambda>m. manifestKind m manifestBlob)
     [[''groups'', ''invite''], [''groups'', ''publishTo''], [''friends'', ''hops''],
      [''friends'', ''blocks'']]
   = [None, None, None, None]"
  by (simp add: manifestBlob_def)

section \<open>Properties of signing\<close>

text \<open>
  Claim C5. \<open>Sign\<close> succeeds exactly when the private key has the length Ed25519
  requires and the encoders succeed, and then: the value signed with Ed25519 is the
  canonical bytes of the unsigned message, replaced by their HMAC under the key when one
  is configured; the bytes returned are the canonical bytes of the signed message, which
  carries the encoded signature; and the returned reference has as its hash the SHA-256 of
  those bytes after the v8 escape transform, with the algorithm
  \<open>RefAlgoMessageSSB1\<close>.
\<close>

theorem Sign_composition:
  "(Sign env msg priv hmacSecret = Inr (mr, bytes)) =
   (length priv = 64 \<and>
    (\<exists>canonical v8warp.
       jsonAndPreserve env (Unsigned msg) = Inr canonical \<and>
       jsonAndPreserve env (Signed \<lparr>LegacyMessage = msg,
           Signature = EncodeSignature env
             (ed25519_Sign env priv (toBeSigned env hmacSecret canonical))\<rparr>) = Inr bytes \<and>
       InternalV8Binary env bytes = Inr v8warp \<and>
       mr = \<lparr>Hash = sha256_Sum env v8warp, Algo = RefAlgoMessageSSB1 env\<rparr>))"
  by (auto simp: Sign_def toBeSigned_def Let_def split: sum.splits option.splits)

text \<open>
  With the example primitives the marks show the order: with an HMAC key \<open>[9]\<close> the
  signature \<open>40 # \<dots>\<close> covers \<open>30 # 9 # canonical\<close>, and the hash \<open>50 # \<dots>\<close> covers the
  escaped (\<open>20\<close>) canonical (\<open>10\<close>) signed (\<open>2\<close>) message.
\<close>

theorem Sign_composition_witness:
  "Sign toySigning
     \<lparr>msgPrevious = None, msgAuthor = ''@A'', msgSequence = 1, msgTimestamp = 0,
      msgHash = ''sha256'', msgContent = 7\<rparr> (replicate 64 0) (Some [9])
   = Inr (\<lparr>Hash = [50, 20, 10, 2, 7, 40, 30, 9, 10, 1, 7], Algo = ''sha256''\<rparr>,
          [10, 2, 7, 40, 30, 9, 10, 1, 7]) \<and>
   Sign toySigning
     \<lparr>msgPrevious = None, msgAuthor = ''@A'', msgSequence = 1, msgTimestamp = 0,
      msgHash = ''sha256'', msgContent = 7\<rparr> (replicate 64 0) None
   = Inr (\<lparr>Hash = [50, 20, 10, 2, 7, 40, 10, 1, 7], Algo = ''sha256''\<rparr>,
          [10, 2, 7, 40, 10, 1, 7])"
  by (simp add: Sign_composition toBeSigned_def jsonAndPreserve_def toySigning_def)

section \<open>Properties of the blob store\<close>

subsection \<open>Paths\<close>

lemma length_hex_EncodeToString: "length (hex_EncodeToString h) = 2 * length h"
  by (induction h) (simp_all add: hex_EncodeToString_def hexByte_def)

lemma showNat_nonempty: "showNat n \<noteq> []"
  by (subst showNat.simps) simp

lemma fmt_Sprint_nonempty: "fmt_Sprint i \<noteq> []"
  by (simp add: fmt_Sprint_def showNat_nonempty)

lemma getPath_shape:
  assumes "length (Hash ref) = 32" and "Algo ref = ''sha256''"
  shows "getPath store ref = Inr ((if basePath store = [] then [] else basePath store @ ''/'')
           @ ''sha256/'' @ take 2 (hex_EncodeToString (Hash ref)) @ ''/''
           @ drop 2 (hex_EncodeToString (Hash ref)))"
proof -
  have "length (hex_EncodeToString (Hash ref)) = 64"
    using assms by (simp add: length_hex_EncodeToString)
  then have "take 2 (hex_EncodeToString (Hash ref)) \<noteq> []"
    and "drop 2 (hex_EncodeToString (Hash ref)) \<noteq> []"
    by auto
  then show ?thesis
    using assms by (simp add: getPath_def IsValid_def filepath_Join_def Let_def)
qed

lemma getTmpPath_shape:
  "getTmpPath store now = (if basePath store = [] then [] else basePath store @ ''/'')
           @ ''tmp/'' @ fmt_Sprint (sint now)"
  by (simp add: getTmpPath_def filepath_Join_def fmt_Sprint_nonempty)

lemma tmp_not_final:
  assumes "getPath store ref = Inr finalPath"
  shows "getTmpPath store now \<noteq> finalPath"
proof -
  from assms have v: "length (Hash ref) = 32" "Algo ref = ''sha256''"
    by (auto simp: getPath_def IsValid_def split: if_splits option.splits)
  show ?thesis
    using assms getPath_shape [OF v, of store] by (auto simp: getTmpPath_shape)
qed

lemma getPath_basePath: "basePath s1 = basePath s2 \<Longrightarrow> getPath s1 ref = getPath s2 ref"
  by (simp add: getPath_def split: option.splits)

text \<open>The path of a reference determines the reference.\<close>

lemma hexDigit_inj: "n < 16 \<Longrightarrow> m < 16 \<Longrightarrow> hexDigit n = hexDigit m \<Longrightarrow> n = m"
proof -
  assume a: "n < 16" "m < 16" "hexDigit n = hexDigit m"
  have d: "distinct ''0123456789abcdef''" by simp
  have l: "length ''0123456789abcdef'' = 16" by simp
  show ?thesis
    using a nth_eq_iff_index_eq [OF d, of n m] by (simp add: hexDigit_def)
qed

lemma hexByte_inj: "hexByte a = hexByte b \<Longrightarrow> a = b"
proof -
  assume h: "hexByte a = hexByte b"
  have la: "unat a < 256" using unsigned_less [of a] by simp
  have lb: "unat b < 256" using unsigned_less [of b] by simp
  have "unat a div 16 = unat b div 16"
    using h la lb hexDigit_inj [of "unat a div 16" "unat b div 16"]
    by (simp add: hexByte_def)
  moreover have "unat a mod 16 = unat b mod 16"
    using h hexDigit_inj [of "unat a mod 16" "unat b mod 16"]
    by (simp add: hexByte_def)
  ultimately have "unat a = unat b"
    by (metis div_mult_mod_eq)
  then show ?thesis by (simp only: word_unat_eq_iff)
qed

lemma hex_EncodeToString_inj:
  "hex_EncodeToString xs = hex_EncodeToString ys \<Longrightarrow> xs = ys"
proof (induction xs arbitrary: ys)
  case Nil
  then show ?case
    by (cases ys) (simp_all add: hex_EncodeToString_def hexByte_def)
next
  case (Cons x xs)
  then show ?case
  proof (cases ys)
    case Nil
    then show ?thesis using Cons.prems by (simp add: hex_EncodeToString_def hexByte_def)
  next
    case (Cons y ys')
    have "hexByte x @ hex_EncodeToString xs = hexByte y @ hex_EncodeToString ys'"
      using Cons.prems Cons by (simp add: hex_EncodeToString_def)
    moreover have "length (hexByte x) = length (hexByte y)"
      by (simp add: hexByte_def)
    ultimately have "hexByte x = hexByte y" "hex_EncodeToString xs = hex_EncodeToString ys'"
      by simp_all
    then show ?thesis
      using Cons Cons.IH hexByte_inj by auto
  qed
qed

lemma getPath_inj:
  assumes "getPath store ref = Inr path" and "getPath store ref' = Inr path"
  shows "ref' = ref"
proof -
  from assms(1) have v: "length (Hash ref) = 32" "Algo ref = ''sha256''"
    by (auto simp: getPath_def IsValid_def split: if_splits option.splits)
  from assms(2) have v': "length (Hash ref') = 32" "Algo ref' = ''sha256''"
    by (auto simp: getPath_def IsValid_def split: if_splits option.splits)
  let ?h = "hex_EncodeToString (Hash ref)" and ?h' = "hex_EncodeToString (Hash ref')"
  let ?pre = "(if basePath store = [] then [] else basePath store @ ''/'') @ ''sha256/''"
  have a: "path = ?pre @ (take 2 ?h @ ''/'' @ drop 2 ?h)"
    using assms(1) getPath_shape [OF v, of store] by simp
  have b: "path = ?pre @ (take 2 ?h' @ ''/'' @ drop 2 ?h')"
    using assms(2) getPath_shape [OF v', of store] by simp
  have "?pre @ (take 2 ?h @ ''/'' @ drop 2 ?h) = ?pre @ (take 2 ?h' @ ''/'' @ drop 2 ?h')"
    using a b by (rule trans [OF sym])
  then have "take 2 ?h @ ''/'' @ drop 2 ?h = take 2 ?h' @ ''/'' @ drop 2 ?h'"
    by (simp only: same_append_eq)
  moreover have "length (take 2 ?h) = length (take 2 ?h')"
    using v v' by (simp add: length_hex_EncodeToString)
  ultimately have "take 2 ?h = take 2 ?h'" "drop 2 ?h = drop 2 ?h'"
    by simp_all
  then have "?h = ?h'"
    by (metis append_take_drop_id)
  then have "Hash ref = Hash ref'"
    by (rule hex_EncodeToString_inj)
  then show ?thesis
    using v v' by simp
qed

subsection \<open>The broadcast\<close>

lemma run_sink_bs: "bs (snd (run_sink s n nd)) = bs nd"
  by (cases s) (auto simp: Let_def split: prod.splits)

lemma snd_bcast_Pour_Cons:
  "snd (bcast_Pour (s # ss) n nd) = snd (bcast_Pour ss n (snd (run_sink s n nd)))"
  by (simp add: Let_def split: prod.splits)

lemma bcast_Pour_bs: "bs (snd (bcast_Pour ss n nd)) = bs nd"
proof (induction ss arbitrary: nd)
  case Nil
  then show ?case by simp
next
  case (Cons s ss)
  show ?case
    unfolding snd_bcast_Pour_Cons Cons.IH run_sink_bs ..
qed

lemma run_sink_wants:
  "wants (wmgr (snd (run_sink s n nd))) =
     (if s = WantMgrSink \<and> Op n = BlobStoreOpPut
      then AList.delete (Ref n) (wants (wmgr nd)) else wants (wmgr nd))"
  by (cases s) (auto simp: wantManager_onChange_def Let_def map_of_eq_None_iff split: prod.splits)

lemma bcast_Pour_wants:
  "wants (wmgr (snd (bcast_Pour ss n nd))) =
     (if WantMgrSink \<in> set ss \<and> Op n = BlobStoreOpPut
      then AList.delete (Ref n) (wants (wmgr nd)) else wants (wmgr nd))"
proof (induction ss arbitrary: nd)
  case Nil
  then show ?case by simp
next
  case (Cons s ss)
  show ?case
    unfolding snd_bcast_Pour_Cons Cons.IH run_sink_wants
    by (auto simp: delete_idem)
qed

text \<open>
  A sink of a want process changes that process only, and when the broadcast returns
  no error the sink of a registered process has run on the process as it was.
\<close>

lemma run_sink_procs_length: "length (procs (snd (run_sink s n nd))) = length (procs nd)"
  by (cases s) (auto simp: Let_def split: prod.splits)

lemma run_sink_proc_other:
  "s \<noteq> WantProcSink i \<Longrightarrow> procs (snd (run_sink s n nd)) ! i = procs nd ! i"
  by (cases s) (auto simp: Let_def split: prod.splits)

lemma run_sink_proc_self:
  "i < length (procs nd) \<Longrightarrow>
   run_sink (WantProcSink i) n nd =
     (fst (wantProc_onChange (bs nd) n (procs nd ! i)),
      nd\<lparr>procs := (procs nd)[i := snd (wantProc_onChange (bs nd) n (procs nd ! i))]\<rparr>)"
  by (simp add: Let_def split: prod.splits)

lemma fst_bcast_Pour_Cons:
  "fst (bcast_Pour (s # ss) n nd) =
     (case fst (run_sink s n nd) of
        Some e \<Rightarrow> Some e
      | None \<Rightarrow> fst (bcast_Pour ss n (snd (run_sink s n nd))))"
  by (cases "run_sink s n nd"; cases "bcast_Pour ss n (snd (run_sink s n nd))")
     (auto simp: Let_def split: option.splits)

lemma bcast_Pour_proc_other:
  "WantProcSink i \<notin> set ss \<Longrightarrow> procs (snd (bcast_Pour ss n nd)) ! i = procs nd ! i"
proof (induction ss arbitrary: nd)
  case Nil
  then show ?case by simp
next
  case (Cons s ss)
  have "s \<noteq> WantProcSink i" and "WantProcSink i \<notin> set ss"
    using Cons.prems by auto
  then show ?case
    unfolding snd_bcast_Pour_Cons by (simp add: Cons.IH run_sink_proc_other)
qed

lemma bcast_Pour_proc:
  assumes "distinct ss" and "WantProcSink i \<in> set ss" and "i < length (procs nd)"
    and "fst (bcast_Pour ss n nd) = None"
  shows "fst (wantProc_onChange (bs nd) n (procs nd ! i)) = None \<and>
         procs (snd (bcast_Pour ss n nd)) ! i = snd (wantProc_onChange (bs nd) n (procs nd ! i))"
  using assms
proof (induction ss arbitrary: nd)
  case Nil
  then show ?case by simp
next
  case (Cons s ss)
  have f: "fst (run_sink s n nd) = None"
      "fst (bcast_Pour ss n (snd (run_sink s n nd))) = None"
    using Cons.prems(4) [unfolded fst_bcast_Pour_Cons] by (auto split: option.splits)
  show ?case
  proof (cases "s = WantProcSink i")
    case True
    then have "WantProcSink i \<notin> set ss" using Cons.prems(1) by simp
    then have "procs (snd (bcast_Pour (s # ss) n nd)) ! i = procs (snd (run_sink s n nd)) ! i"
      unfolding snd_bcast_Pour_Cons by (rule bcast_Pour_proc_other)
    then show ?thesis
      using True f(1) Cons.prems(3) by (simp add: run_sink_proc_self del: run_sink.simps)
  next
    case False
    then have m: "WantProcSink i \<in> set ss" using Cons.prems(2) by simp
    have d: "distinct ss" using Cons.prems(1) by simp
    have l: "i < length (procs (snd (run_sink s n nd)))"
      using Cons.prems(3) by (simp add: run_sink_procs_length)
    from Cons.IH [OF d m l f(2)] show ?thesis
      unfolding snd_bcast_Pour_Cons
      by (simp add: run_sink_bs run_sink_proc_other [OF False])
  qed
qed

subsection \<open>Put\<close>

text \<open>
  What a successful \<open>Put\<close> has done: the reference is the hash of the bytes copied, it is
  valid, the temporary file has been renamed to the path of the reference, and the
  state returned is the one in which the broadcast of the notification ended, without
  an error.
\<close>

lemma Put_success:
  assumes "Put sha256 now blob nd = (Inr ref, nd')"
  shows "ref = \<lparr>Hash = sha256 (content blob), Algo = ''sha256''\<rparr> \<and>
         IsValid ref = None \<and>
         (\<exists>finalPath nd3.
            getPath (bs nd) ref = Inr finalPath \<and>
            nd3 = nd\<lparr>bs := (bs nd)\<lparr>fsys := (fsys (bs nd))\<lparr>files :=
                     ((files (fsys (bs nd)))(getTmpPath (bs nd) now := None))
                       (finalPath \<mapsto> content blob)\<rparr>\<rparr>\<rparr> \<and>
            bcast_Pour (sinks (bs nd)) \<lparr>Op = BlobStoreOpPut, Ref = ref\<rparr> nd3 = (None, nd'))"
  using assms
  apply (simp add: Put_def Let_def os_Create_def os_Rename_def
      split: sum.splits option.splits if_splits prod.splits)
  apply (auto simp: getPath_def getHexDirPath_def split: option.splits)
  done

text \<open>
  \<open>Put\<close> does succeed when no system call fails, the input ends regularly, the hash
  has 32 bytes and no registered sink returns an error.
\<close>

lemma Put_succeeds:
  assumes "\<And>call. fault (fsys (bs nd)) call = None"
    and "readErr blob = None"
    and "length (sha256 (content blob)) = 32"
    and "\<And>nd3. fst (bcast_Pour (sinks (bs nd))
            \<lparr>Op = BlobStoreOpPut, Ref = \<lparr>Hash = sha256 (content blob), Algo = ''sha256''\<rparr>\<rparr> nd3)
          = None"
  shows "fst (Put sha256 now blob nd) = Inr \<lparr>Hash = sha256 (content blob), Algo = ''sha256''\<rparr>"
proof -
  have "fst (case bcast_Pour (sinks (bs nd))
            \<lparr>Op = BlobStoreOpPut, Ref = \<lparr>Hash = sha256 (content blob), Algo = ''sha256''\<rparr>\<rparr> nd3 of
          (err, nd4) \<Rightarrow> (case err of
                Some e \<Rightarrow> (Inl (Wrap ''blobstore.Put: error in notification handler'' e), nd4)
              | None \<Rightarrow> (Inr \<lparr>Hash = sha256 (content blob), Algo = ''sha256''\<rparr>, nd4)))
      = Inr \<lparr>Hash = sha256 (content blob), Algo = ''sha256''\<rparr>" for nd3
    using assms(4) [of nd3]
    by (cases "bcast_Pour (sinks (bs nd))
            \<lparr>Op = BlobStoreOpPut, Ref = \<lparr>Hash = sha256 (content blob), Algo = ''sha256''\<rparr>\<rparr> nd3")
       auto
  then show ?thesis
    using assms(1-3)
    by (simp add: Put_def Let_def os_Create_def os_Rename_def os_Close_def os_MkdirAll_def
      getPath_def getHexDirPath_def IsValid_def)
qed

text \<open>A failed copy leaves the bytes read so far in the temporary file.\<close>

lemma Put_copy_error:
  assumes "fault (fsys (bs nd)) (OpCreate (getTmpPath (bs nd) now)) = None"
    and "readErr blob = Some err" and "\<not> luigi_IsEOS err"
  shows "fst (Put sha256 now blob nd) = Inl (Wrap ''blobstore.Put: error copying'' err) \<and>
         files (fsys (bs (snd (Put sha256 now blob nd)))) (getTmpPath (bs nd) now)
           = Some (content blob)"
  using assms by (simp add: Put_def Let_def os_Create_def)

subsection \<open>The invariant of the store\<close>

text \<open>
  Renaming the temporary file to the path of a reference whose digest is the hash of
  the bytes keeps the invariant, and so does writing the temporary file or removing a
  file. Hence \<open>Put\<close> keeps it, however it ends.
\<close>

lemma store_ok_rename:
  assumes ok: "store_ok sha256 store"
    and p: "getPath store ref = Inr finalPath"
    and h: "sha256 b = Hash ref"
    and t: "\<And>r q. getPath store r = Inr q \<Longrightarrow> q \<noteq> tmp"
  shows "store_ok sha256 (store\<lparr>fsys := (fsys store)\<lparr>files :=
           ((files (fsys store))(tmp := None))(finalPath \<mapsto> b)\<rparr>\<rparr>)"
  unfolding store_ok_def
proof (intro allI impI)
  fix r q c
  let ?s = "store\<lparr>fsys := (fsys store)\<lparr>files := ((files (fsys store))(tmp := None))(finalPath \<mapsto> b)\<rparr>\<rparr>"
  assume g: "getPath ?s r = Inr q" and f: "files (fsys ?s) q = Some c"
  have g': "getPath store r = Inr q"
    using g getPath_basePath [of ?s store r] by simp
  show "sha256 c = Hash r"
  proof (cases "q = finalPath")
    case True
    then have "r = ref" using getPath_inj [OF p] g' by simp
    moreover have "c = b" using f True by simp
    ultimately show ?thesis using h by simp
  next
    case False
    then have "files (fsys store) q = Some c"
      using f t [OF g'] by (simp split: if_splits)
    then show ?thesis using ok g' by (auto simp: store_ok_def)
  qed
qed

lemma Put_preserves_store_ok:
  assumes "Put sha256 now blob nd = (Inr ref, nd')" and "store_ok sha256 (bs nd)"
  shows "store_ok sha256 (bs nd')"
proof -
  from Put_success [OF assms(1)] obtain finalPath nd3 where
    r: "ref = \<lparr>Hash = sha256 (content blob), Algo = ''sha256''\<rparr>" and
    p: "getPath (bs nd) ref = Inr finalPath" and
    n3: "nd3 = nd\<lparr>bs := (bs nd)\<lparr>fsys := (fsys (bs nd))\<lparr>files :=
                     ((files (fsys (bs nd)))(getTmpPath (bs nd) now := None))
                       (finalPath \<mapsto> content blob)\<rparr>\<rparr>\<rparr>" and
    b: "bcast_Pour (sinks (bs nd)) \<lparr>Op = BlobStoreOpPut, Ref = ref\<rparr> nd3 = (None, nd')"
    by blast
  have bs': "bs nd' = bs nd3"
    using bcast_Pour_bs [of "sinks (bs nd)" "\<lparr>Op = BlobStoreOpPut, Ref = ref\<rparr>" nd3] b by simp
  have "store_ok sha256 ((bs nd)\<lparr>fsys := (fsys (bs nd))\<lparr>files :=
           ((files (fsys (bs nd)))(getTmpPath (bs nd) now := None))(finalPath \<mapsto> content blob)\<rparr>\<rparr>)"
  proof (rule store_ok_rename [OF assms(2) p])
    show "sha256 (content blob) = Hash ref" using r by simp
    show "\<And>r q. getPath (bs nd) r = Inr q \<Longrightarrow> q \<noteq> getTmpPath (bs nd) now"
      using tmp_not_final by blast
  qed
  then show ?thesis using bs' n3 by simp
qed


lemma store_ok_tmp:
  assumes ok: "store_ok sha256 store"
    and t: "\<And>r q. getPath store r = Inr q \<Longrightarrow> q \<noteq> tmp"
  shows "store_ok sha256 (store\<lparr>fsys := (fsys store)\<lparr>files := (files (fsys store))(tmp \<mapsto> c)\<rparr>\<rparr>)"
  unfolding store_ok_def
proof (intro allI impI)
  fix r q d
  let ?s = "store\<lparr>fsys := (fsys store)\<lparr>files := (files (fsys store))(tmp \<mapsto> c)\<rparr>\<rparr>"
  assume g: "getPath ?s r = Inr q" and f: "files (fsys ?s) q = Some d"
  have g': "getPath store r = Inr q"
    using g getPath_basePath [of ?s store r] by simp
  then have "files (fsys store) q = Some d"
    using f t [OF g'] by (simp split: if_splits)
  then show "sha256 d = Hash r" using ok g' by (auto simp: store_ok_def)
qed

lemma store_ok_remove:
  assumes ok: "store_ok sha256 store"
  shows "store_ok sha256 (store\<lparr>fsys := (fsys store)\<lparr>files := (files (fsys store))(p := None)\<rparr>\<rparr>)"
  unfolding store_ok_def
proof (intro allI impI)
  fix r q d
  let ?s = "store\<lparr>fsys := (fsys store)\<lparr>files := (files (fsys store))(p := None)\<rparr>\<rparr>"
  assume g: "getPath ?s r = Inr q" and f: "files (fsys ?s) q = Some d"
  have g': "getPath store r = Inr q"
    using g getPath_basePath [of ?s store r] by simp
  have "files (fsys store) q = Some d"
    using f by (simp split: if_splits)
  then show "sha256 d = Hash r" using ok g' by (auto simp: store_ok_def)
qed

lemma Put_store_ok_always:
  assumes ok: "store_ok sha256 (bs nd)"
  shows "store_ok sha256 (bs (snd (Put sha256 now blob nd)))"
proof -
  let ?tmp = "getTmpPath (bs nd) now"
  let ?ref = "\<lparr>Hash = sha256 (content blob), Algo = ''sha256''\<rparr>"
  have t: "\<And>r q. getPath (bs nd) r = Inr q \<Longrightarrow> q \<noteq> ?tmp"
    using tmp_not_final by blast
  have s2: "store_ok sha256 ((bs nd)\<lparr>fsys := (fsys (bs nd))\<lparr>files :=
              (files (fsys (bs nd)))(?tmp \<mapsto> content blob)\<rparr>\<rparr>)"
    using store_ok_tmp [OF ok t] by simp
  have s3: "store_ok sha256 ((bs nd)\<lparr>fsys := (fsys (bs nd))\<lparr>files :=
              ((files (fsys (bs nd)))(?tmp := None))(finalPath \<mapsto> content blob)\<rparr>\<rparr>)"
    if "getPath (bs nd) ?ref = Inr finalPath" for finalPath
    using store_ok_rename [OF ok that _ t, of "content blob"] by simp
  show ?thesis
    using ok s2 s3
    by (auto simp: Put_def Let_def os_Create_def os_Rename_def bcast_Pour_bs
        split: sum.splits option.splits prod.splits
        dest!: arg_cong [where f = "\<lambda>x. bs (snd x)"])
qed

lemma Delete_store_ok_always:
  assumes ok: "store_ok sha256 (bs nd)"
  shows "store_ok sha256 (bs (snd (blobStore_Delete ref nd)))"
  using ok store_ok_remove [OF ok]
  by (simp add: blobStore_Delete_def Let_def os_Remove_def case_prod_beta bcast_Pour_bs
      split: sum.splits option.splits)

text \<open>
  After a successful \<open>Put\<close>, a registered want process whose peer wants the blob has
  sent the peer the size of the blob.
\<close>

lemma Put_notifies_peer:
  assumes "Put sha256 now blob nd = (Inr ref, nd')"
    and "distinct (sinks (bs nd))" and "WantProcSink i \<in> set (sinks (bs nd))"
    and "i < length (procs nd)"
    and "map_of (remoteWants (procs nd ! i)) ref \<noteq> None"
  shows "poured (out (procs nd' ! i))
           = poured (out (procs nd ! i)) @ [[(ref, of_nat (length (content blob)))]]"
proof -
  from Put_success [OF assms(1)] obtain finalPath nd3 where
    p: "getPath (bs nd) ref = Inr finalPath" and
    n3: "nd3 = nd\<lparr>bs := (bs nd)\<lparr>fsys := (fsys (bs nd))\<lparr>files :=
                     ((files (fsys (bs nd)))(getTmpPath (bs nd) now := None))
                       (finalPath \<mapsto> content blob)\<rparr>\<rparr>\<rparr>" and
    b: "bcast_Pour (sinks (bs nd)) \<lparr>Op = BlobStoreOpPut, Ref = ref\<rparr> nd3 = (None, nd')"
    by blast
  let ?n = "\<lparr>Op = BlobStoreOpPut, Ref = ref\<rparr>"
  have l: "i < length (procs nd3)" and pr: "procs nd3 ! i = procs nd ! i"
    using n3 assms(4) by simp_all
  have fb: "fst (bcast_Pour (sinks (bs nd)) ?n nd3) = None" using b by simp
  from bcast_Pour_proc [OF assms(2) assms(3) l fb]
  have h: "fst (wantProc_onChange (bs nd3) ?n (procs nd ! i)) = None"
    and q: "procs nd' ! i = snd (wantProc_onChange (bs nd3) ?n (procs nd ! i))"
    using b pr by simp_all
  have g: "getPath (bs nd3) ref = Inr finalPath"
    using p n3 getPath_basePath [of "bs nd3" "bs nd" ref] by simp
  have "files (fsys (bs nd3)) finalPath = Some (content blob)"
    using n3 by simp
  then have sz: "Size (bs nd3) ref = Inr (of_nat (length (content blob))) \<or>
                 (\<exists>e. Size (bs nd3) ref = Inl e)"
    using g by (auto simp: Size_def os_Stat_def split: option.splits)
  then show ?thesis
    using h q assms(5)
    by (auto simp: wantProc_onChange_def sink_Pour_def Let_def errors_Wrap_def
        split: sum.splits prod.splits option.splits)
qed

subsection \<open>The examples\<close>

lemma ex_getPath: "getPath exStore exRef = Inr exPath"
  by (simp add: getPath_def exStore_def exRef_def exPath_def toySha256_def IsValid_def
      hex_EncodeToString_def hexByte_def hexDigit_def filepath_Join_def)

lemma ex_getPath2:
  "getPath exStore exRef2
     = Inr ''/b/sha256/00/00000000000000000000000000000000000000000000000000000000000000''"
  by (simp add: getPath_def exStore_def exRef2_def toySha256_def IsValid_def
      hex_EncodeToString_def hexByte_def hexDigit_def filepath_Join_def)

lemma ex_getTmpPath: "getTmpPath exStore 5 = ''/b/tmp/5''"
  by (simp add: getTmpPath_def exStore_def filepath_Join_def fmt_Sprint_def showNat.simps)

lemma ex_refs_differ: "exRef \<noteq> exRef2"
  by (simp add: exRef_def exRef2_def toySha256_def)

lemma exNode_unfold:
  "exNode = \<lparr>bs = exStore\<lparr>sinks := [WantMgrSink]\<rparr>,
             wmgr = \<lparr>wants = [(exRef, - 1)],
                     wantSink = \<lparr>poured = [\<lparr>wantRef = exRef, Dist = - 1\<rparr>], pourErr = None\<rparr>\<rparr>,
             procs = []\<rparr>"
proof -
  have "Get (exStore\<lparr>sinks := [WantMgrSink]\<rparr>) exRef = Inl ErrNoSuchBlob"
    using ex_getPath getPath_basePath [of "exStore\<lparr>sinks := [WantMgrSink]\<rparr>" exStore exRef]
    by (simp add: Get_def os_Open_def os_IsNotExist_def exStore_def)
  then show ?thesis
    by (simp add: exNode_def Want_def WantWithDist_def NewWantManager_def sink_Pour_def
        emptySink_def errors_Wrap_def exStore_def)
qed

lemma ex_Put:
  "Put toySha256 5 exBlob exNode =
     (Inr exRef,
      \<lparr>bs = \<lparr>basePath = ''/b'',
              fsys = \<lparr>files = [exPath \<mapsto> [1, 2, 3]], fault = (\<lambda>call. None)\<rparr>,
              sinks = [WantMgrSink]\<rparr>,
       wmgr = \<lparr>wants = [],
               wantSink = \<lparr>poured = [\<lparr>wantRef = exRef, Dist = - 1\<rparr>], pourErr = None\<rparr>\<rparr>,
       procs = []\<rparr>)"
  by (simp add: Put_def exNode_unfold Let_def getTmpPath_def getPath_def getHexDirPath_def
      exStore_def exRef_def exBlob_def exPath_def toySha256_def IsValid_def
      hex_EncodeToString_def hexByte_def hexDigit_def filepath_Join_def fmt_Sprint_def
      showNat.simps os_Create_def os_Close_def os_MkdirAll_def os_Rename_def
      wantManager_onChange_def)

lemma ex_Put_peer:
  "Put toySha256 5 exBlob exPeerNode =
     (Inr exRef,
      \<lparr>bs = \<lparr>basePath = ''/b'',
              fsys = \<lparr>files = [exPath \<mapsto> [1, 2, 3]], fault = (\<lambda>call. None)\<rparr>,
              sinks = [WantMgrSink, WantProcSink 0]\<rparr>,
       wmgr = \<lparr>wants = [], wantSink = emptySink\<rparr>,
       procs = [\<lparr>remoteWants = [(exRef, - 2)],
                 out = \<lparr>poured = [[(exRef, 3)]], pourErr = None\<rparr>, fetches = []\<rparr>]\<rparr>)"
  by (simp add: Put_def exPeerNode_def Let_def getTmpPath_def getPath_def getHexDirPath_def
      exRef_def exBlob_def exPath_def toySha256_def IsValid_def
      hex_EncodeToString_def hexByte_def hexDigit_def filepath_Join_def fmt_Sprint_def
      showNat.simps os_Create_def os_Close_def os_MkdirAll_def os_Rename_def
      wantManager_onChange_def wantProc_onChange_def Size_def os_Stat_def sink_Pour_def
      emptySink_def errors_Wrap_def)

lemma ex_Size: "Size exStoreHave exRef = Inr 3 \<and> Size exStoreHave exRef2 = Inl ErrNoSuchBlob"
  using ex_getPath ex_getPath2
    getPath_basePath [of exStoreHave exStore exRef]
    getPath_basePath [of exStoreHave exStore exRef2]
  by (simp add: Size_def os_Stat_def os_IsNotExist_def exStoreHave_def exStore_def exPath_def)

lemma ex_Size_fault:
  "Size exStoreFault exRef = Inr 3 \<and>
   Size exStoreFault exRef2 = Inl (Wrap ''error getting file info'' (Errorf ''permission denied''))"
  using ex_getPath ex_getPath2
    getPath_basePath [of exStoreFault exStore exRef]
    getPath_basePath [of exStoreFault exStore exRef2]
  by (simp add: Size_def os_Stat_def os_IsNotExist_def exStoreFault_def exStore_def exPath_def)

text \<open>
  Claim C2. When \<open>Put\<close> returns a reference, that reference has the algorithm \<open>sha256\<close>
  and the SHA-256 of the bytes copied as its digest; the path of the reference is
  \<open>sha256/<hh>/<rest>\<close> under the base path, with \<open>hh\<close> the first two hexadecimal digits
  of the digest and \<open>rest\<close> the others; the file at that path holds exactly the bytes
  copied, so its SHA-256 is the digest of the reference; the temporary file
  \<open>tmp/<nanos>\<close>, to which the bytes were written, is no longer there; and if every
  visible blob path held bytes hashing to its reference before, every one does after.
\<close>

theorem Put_content_addressed:
  assumes "Put sha256 now blob nd = (Inr ref, nd')"
  shows "Algo ref = ''sha256'' \<and> Hash ref = sha256 (content blob) \<and>
         getPath (bs nd') ref =
           Inr ((if basePath (bs nd) = [] then [] else basePath (bs nd) @ ''/'')
                @ ''sha256/'' @ take 2 (hex_EncodeToString (Hash ref)) @ ''/''
                @ drop 2 (hex_EncodeToString (Hash ref))) \<and>
         length (take 2 (hex_EncodeToString (Hash ref))) = 2 \<and>
         (\<exists>finalPath stored.
            getPath (bs nd') ref = Inr finalPath \<and>
            files (fsys (bs nd')) finalPath = Some stored \<and>
            stored = content blob \<and> sha256 stored = Hash ref) \<and>
         getTmpPath (bs nd) now =
           (if basePath (bs nd) = [] then [] else basePath (bs nd) @ ''/'')
           @ ''tmp/'' @ fmt_Sprint (sint now) \<and>
         files (fsys (bs nd')) (getTmpPath (bs nd) now) = None \<and>
         (store_ok sha256 (bs nd) \<longrightarrow> store_ok sha256 (bs nd'))"
proof -
  from Put_success [OF assms] obtain finalPath nd3 where
    r: "ref = \<lparr>Hash = sha256 (content blob), Algo = ''sha256''\<rparr>" and
    v: "IsValid ref = None" and
    p: "getPath (bs nd) ref = Inr finalPath" and
    n3: "nd3 = nd\<lparr>bs := (bs nd)\<lparr>fsys := (fsys (bs nd))\<lparr>files :=
                     ((files (fsys (bs nd)))(getTmpPath (bs nd) now := None))
                       (finalPath \<mapsto> content blob)\<rparr>\<rparr>\<rparr>" and
    b: "bcast_Pour (sinks (bs nd)) \<lparr>Op = BlobStoreOpPut, Ref = ref\<rparr> nd3 = (None, nd')"
    by blast
  have bs': "bs nd' = bs nd3"
    using bcast_Pour_bs [of "sinks (bs nd)" "\<lparr>Op = BlobStoreOpPut, Ref = ref\<rparr>" nd3] b by simp
  have len: "length (Hash ref) = 32" and alg: "Algo ref = ''sha256''"
    using v by (auto simp: IsValid_def split: if_splits)
  have p': "getPath (bs nd') ref = Inr finalPath"
    using p bs' n3 getPath_basePath [of "bs nd'" "bs nd" ref] by simp
  have neq: "getTmpPath (bs nd) now \<noteq> finalPath"
    using tmp_not_final [OF p] .
  have f: "files (fsys (bs nd')) finalPath = Some (content blob)"
    using bs' n3 by simp
  have t: "files (fsys (bs nd')) (getTmpPath (bs nd) now) = None"
    using bs' n3 neq by simp
  have shape: "finalPath = (if basePath (bs nd) = [] then [] else basePath (bs nd) @ ''/'')
           @ ''sha256/'' @ take 2 (hex_EncodeToString (Hash ref)) @ ''/''
           @ drop 2 (hex_EncodeToString (Hash ref))"
    using getPath_shape [OF len alg, of "bs nd"] p by simp
  have l2: "length (take 2 (hex_EncodeToString (Hash ref))) = 2"
    using len by (simp add: length_hex_EncodeToString)
  have inv: "store_ok sha256 (bs nd) \<longrightarrow> store_ok sha256 (bs nd')"
    using Put_preserves_store_ok [OF assms] by blast
  show ?thesis
    using r p' f t shape l2 inv getTmpPath_shape [of "bs nd" now] by simp
qed

theorem Put_content_addressed_witness:
  "fst (Put toySha256 5 exBlob exNode) = Inr exRef \<and>
   getPath (bs (snd (Put toySha256 5 exBlob exNode))) exRef = Inr exPath \<and>
   files (fsys (bs (snd (Put toySha256 5 exBlob exNode)))) exPath = Some [1, 2, 3] \<and>
   toySha256 [1, 2, 3] = Hash exRef \<and>
   files (fsys (bs (snd (Put toySha256 5 exBlob exNode)))) ''/b/tmp/5'' = None \<and>
   store_ok toySha256 (bs exNode) \<and>
   store_ok toySha256 (bs (snd (Put toySha256 5 exBlob exNode)))"
proof -
  have e: "Put toySha256 5 exBlob exNode = (Inr exRef, snd (Put toySha256 5 exBlob exNode))"
    by (simp add: ex_Put)
  note th = Put_content_addressed [OF e]
  have o: "store_ok toySha256 (bs exNode)"
    by (simp add: store_ok_def exNode_unfold exStore_def)
  have o': "store_ok toySha256 (bs (snd (Put toySha256 5 exBlob exNode)))"
    using th o by blast
  have h: "Hash exRef = toySha256 (content exBlob)"
    using th by blast
  have t: "files (fsys (bs (snd (Put toySha256 5 exBlob exNode)))) (getTmpPath (bs exNode) 5) = None"
    using th by blast
  have tp: "getTmpPath (bs exNode) 5 = ''/b/tmp/5''"
    using ex_getTmpPath by (simp add: exNode_unfold getTmpPath_def exStore_def)
  have g: "getPath (bs (snd (Put toySha256 5 exBlob exNode))) exRef = Inr exPath"
    using ex_getPath getPath_basePath [of "bs (snd (Put toySha256 5 exBlob exNode))" exStore exRef]
    by (simp add: ex_Put exStore_def)
  show ?thesis
    using h t tp g o o' by (simp add: ex_Put exRef_def)
qed

text \<open>
  The sink of the want manager is registered by \<open>NewWantManager\<close> and stays registered:
  \<open>Put\<close>, \<open>WantWithDist\<close> and \<open>CreateWants\<close> never remove a sink.
\<close>

lemma NewWantManager_registered: "WantMgrSink \<in> set (sinks (bs (NewWantManager store)))"
  by (simp add: NewWantManager_def)

lemma Put_sinks: "sinks (bs (snd (Put sha256 now blob nd))) = sinks (bs nd)"
  by (simp add: Put_def Let_def os_Create_def os_Rename_def case_prod_beta bcast_Pour_bs
      split: sum.splits option.splits)

lemma WantWithDist_bs: "bs (snd (WantWithDist ref dist nd)) = bs nd"
  by (simp add: WantWithDist_def Let_def case_prod_beta split: sum.splits)

lemma CreateWants_sinks:
  "set (sinks (bs nd)) \<subseteq> set (sinks (bs (snd (CreateWants snk nd))))"
  by (auto simp: CreateWants_def Let_def case_prod_beta)

text \<open>
  Claim C4. When the sink of the want manager is registered on the store, as
  \<open>NewWantManager\<close> does, and \<open>Put\<close> returns the reference \<open>ref\<close> (the hash of the bytes
  put), then the want manager does not want \<open>ref\<close> any more, and the state returned is
  the result of pouring the notification \<open>(BlobStoreOpPut, ref)\<close> into the broadcast of
  the store, that is into every registered sink, none of which returned an error. In
  particular a want process registered once on the store, whose peer wants \<open>ref\<close>, has
  sent that peer the message \<open>{ref: size}\<close>, the size being the length of the bytes put.
\<close>

theorem Put_clears_want:
  assumes "WantMgrSink \<in> set (sinks (bs nd))"
    and "Put sha256 now blob nd = (Inr ref, nd')"
  shows "Hash ref = sha256 (content blob) \<and>
         \<not> Wants (wmgr nd') ref \<and>
         (\<exists>nd3. wmgr nd3 = wmgr nd \<and> procs nd3 = procs nd \<and>
            bcast_Pour (sinks (bs nd)) \<lparr>Op = BlobStoreOpPut, Ref = ref\<rparr> nd3 = (None, nd')) \<and>
         (\<forall>i. distinct (sinks (bs nd)) \<longrightarrow> WantProcSink i \<in> set (sinks (bs nd)) \<longrightarrow>
              i < length (procs nd) \<longrightarrow> map_of (remoteWants (procs nd ! i)) ref \<noteq> None \<longrightarrow>
              poured (out (procs nd' ! i))
                = poured (out (procs nd ! i)) @ [[(ref, of_nat (length (content blob)))]])"
proof -
  from Put_success [OF assms(2)] obtain finalPath nd3 where
    r: "ref = \<lparr>Hash = sha256 (content blob), Algo = ''sha256''\<rparr>" and
    n3: "nd3 = nd\<lparr>bs := (bs nd)\<lparr>fsys := (fsys (bs nd))\<lparr>files :=
                     ((files (fsys (bs nd)))(getTmpPath (bs nd) now := None))
                       (finalPath \<mapsto> content blob)\<rparr>\<rparr>\<rparr>" and
    b: "bcast_Pour (sinks (bs nd)) \<lparr>Op = BlobStoreOpPut, Ref = ref\<rparr> nd3 = (None, nd')"
    by blast
  have "wants (wmgr nd') = AList.delete ref (wants (wmgr nd3))"
    using bcast_Pour_wants [of "sinks (bs nd)" "\<lparr>Op = BlobStoreOpPut, Ref = ref\<rparr>" nd3]
      assms(1) b
    by simp
  then have "\<not> Wants (wmgr nd') ref"
    by (simp add: Wants_def delete_conv')
  moreover have "wmgr nd3 = wmgr nd" "procs nd3 = procs nd"
    using n3 by simp_all
  moreover have "\<forall>i. distinct (sinks (bs nd)) \<longrightarrow> WantProcSink i \<in> set (sinks (bs nd)) \<longrightarrow>
              i < length (procs nd) \<longrightarrow> map_of (remoteWants (procs nd ! i)) ref \<noteq> None \<longrightarrow>
              poured (out (procs nd' ! i))
                = poured (out (procs nd ! i)) @ [[(ref, of_nat (length (content blob)))]]"
    using Put_notifies_peer [OF assms(2)] by blast
  ultimately show ?thesis using r b by auto
qed

theorem Put_clears_want_witness:
  "WantMgrSink \<in> set (sinks (bs exPeerNode)) \<and>
   Wants (wmgr exPeerNode) exRef \<and>
   fst (Put toySha256 5 exBlob exPeerNode) = Inr exRef \<and>
   \<not> Wants (wmgr (snd (Put toySha256 5 exBlob exPeerNode))) exRef \<and>
   distinct (sinks (bs exPeerNode)) \<and>
   WantProcSink 0 \<in> set (sinks (bs exPeerNode)) \<and>
   map_of (remoteWants (procs exPeerNode ! 0)) exRef = Some (- 2) \<and>
   poured (out (procs exPeerNode ! 0)) = [] \<and>
   poured (out (procs (snd (Put toySha256 5 exBlob exPeerNode)) ! 0)) = [[(exRef, 3)]]"
proof -
  have s: "WantMgrSink \<in> set (sinks (bs exPeerNode))"
    by (simp add: exPeerNode_def)
  have w: "Wants (wmgr exPeerNode) exRef"
    by (simp add: exPeerNode_def Wants_def)
  have d: "distinct (sinks (bs exPeerNode))"
    and m: "WantProcSink 0 \<in> set (sinks (bs exPeerNode))"
    and l: "0 < length (procs exPeerNode)"
    and k: "map_of (remoteWants (procs exPeerNode ! 0)) exRef = Some (- 2)"
    and o: "poured (out (procs exPeerNode ! 0)) = []"
    by (simp_all add: exPeerNode_def emptySink_def)
  have e: "Put toySha256 5 exBlob exPeerNode
      = (Inr exRef, snd (Put toySha256 5 exBlob exPeerNode))"
    by (simp add: ex_Put_peer)
  note th = Put_clears_want [OF s e]
  have n: "\<not> Wants (wmgr (snd (Put toySha256 5 exBlob exPeerNode))) exRef"
    using th by blast
  have "map_of (remoteWants (procs exPeerNode ! 0)) exRef \<noteq> None"
    using k by simp
  then have "poured (out (procs (snd (Put toySha256 5 exBlob exPeerNode)) ! 0))
      = poured (out (procs exPeerNode ! 0)) @ [[(exRef, of_nat (length (content exBlob)))]]"
    using th d m l by blast
  then have q: "poured (out (procs (snd (Put toySha256 5 exBlob exPeerNode)) ! 0))
      = [[(exRef, 3)]]"
    using o by (simp add: exBlob_def)
  have f: "fst (Put toySha256 5 exBlob exPeerNode) = Inr exRef"
    by (simp add: ex_Put_peer)
  show ?thesis
    using s w d m k o n q f by simp
qed

section \<open>Properties of the want manager\<close>



section \<open>Properties of wantProc.Pour\<close>

lemma pourLoop_no_error:
  "list_all (\<lambda>w. sint (Dist w) < 0 \<longrightarrow> sizeKnown store w) mIn \<Longrightarrow>
   fst (pourLoop store wm mIn proc mOut) = None"
  by (induction mIn arbitrary: proc mOut) (auto simp: sizeKnown_def split: sum.splits)

lemma pourLoop_out:
  "out (fst (snd (pourLoop store wm mIn proc mOut))) = out proc"
  by (induction mIn arbitrary: proc mOut) (auto split: sum.splits)

lemma pourLoop_remoteWants_other:
  "r \<notin> wantRef ` set mIn \<Longrightarrow>
   map_of (remoteWants (fst (snd (pourLoop store wm mIn proc mOut)))) r
     = map_of (remoteWants proc) r"
  by (induction mIn arbitrary: proc mOut) (auto simp: update_conv' delete_conv' split: sum.splits)

lemma pourLoop_mOut_other:
  "r \<notin> wantRef ` set mIn \<Longrightarrow>
   map_of (snd (snd (pourLoop store wm mIn proc mOut))) r = map_of mOut r"
  by (induction mIn arbitrary: proc mOut) (auto simp: update_conv' split: sum.splits)

lemma pourLoop_mOut_nonempty:
  "mOut \<noteq> [] \<Longrightarrow> snd (snd (pourLoop store wm mIn proc mOut)) \<noteq> []"
  by (induction mIn arbitrary: proc mOut) (auto split: sum.splits)

lemma pourLoop_mOut_empty:
  "list_all (\<lambda>w. sint (Dist w) < 0 \<longrightarrow> sizeKnown store w) mIn \<Longrightarrow>
   (snd (snd (pourLoop store wm mIn proc mOut)) = []) =
     (mOut = [] \<and> list_all (\<lambda>w. \<not> answerable store w) mIn)"
  by (induction mIn arbitrary: proc mOut)
     (auto simp: sizeKnown_def answerable_def pourLoop_mOut_nonempty split: sum.splits)

text \<open>
  What the loop has done for one received want with a negative distance, when the
  references of the message are distinct, as the keys of the received map are.
\<close>

lemma pourLoop_entry:
  assumes "list_all (\<lambda>w. sint (Dist w) < 0 \<longrightarrow> sizeKnown store w) mIn"
    and "distinct (map wantRef mIn)"
    and "w \<in> set mIn" and "sint (Dist w) < 0"
  shows "case Size store (wantRef w) of
           Inr s \<Rightarrow>
             map_of (remoteWants (fst (snd (pourLoop store wm mIn proc mOut)))) (wantRef w) = None \<and>
             map_of (snd (snd (pourLoop store wm mIn proc mOut))) (wantRef w) = Some s
         | Inl err \<Rightarrow>
             map_of (remoteWants (fst (snd (pourLoop store wm mIn proc mOut)))) (wantRef w)
               = Some (Dist w - 1)"
  using assms
proof (induction mIn arbitrary: proc mOut)
  case Nil
  then show ?case by simp
next
  case (Cons a mIn)
  show ?case
  proof (cases "w = a")
    case True
    then have "wantRef w \<notin> wantRef ` set mIn"
      using Cons.prems(2) by auto
    then show ?thesis
      using True Cons.prems(1,4)
      by (auto simp: sizeKnown_def pourLoop_remoteWants_other pourLoop_mOut_other
          update_conv' delete_conv' split: sum.splits)
  next
    case False
    then have "w \<in> set mIn" using Cons.prems(3) by simp
    then have ih: "\<And>proc mOut. case Size store (wantRef w) of
           Inr s \<Rightarrow>
             map_of (remoteWants (fst (snd (pourLoop store wm mIn proc mOut)))) (wantRef w) = None \<and>
             map_of (snd (snd (pourLoop store wm mIn proc mOut))) (wantRef w) = Some s
         | Inl err \<Rightarrow>
             map_of (remoteWants (fst (snd (pourLoop store wm mIn proc mOut)))) (wantRef w)
               = Some (Dist w - 1)"
      using Cons.IH Cons.prems by simp
    show ?thesis
      using Cons.prems(1) ih
      by (auto simp: sizeKnown_def split: sum.splits)
  qed
qed

lemma Size_is_length:
  "Size store ref = Inr s \<Longrightarrow>
   \<exists>path b. getPath store ref = Inr path \<and> files (fsys store) path = Some b \<and>
            s = of_nat (length b)"
  by (auto simp: Size_def os_Stat_def split: sum.splits option.splits if_splits)

lemma sint_of_nat_nonneg: "n < 2 ^ 63 \<Longrightarrow> 0 \<le> sint (of_nat n :: int64)"
  by (simp add: signed_of_nat signed_take_bit_int_eq_self)

text \<open>
  The distance recorded is \<open>dist - 1\<close> in \<open>int64\<close>: one less than \<open>dist\<close>, except at the
  least \<open>int64\<close>, where the subtraction wraps around to the greatest.
\<close>

lemma propagated_distance:
  "- (2 ^ 63) < sint (d :: int64) \<Longrightarrow> sint (d - 1) = sint d - 1"
proof -
  assume h: "- (2 ^ 63) < sint d"
  have "sint d < 2 ^ 63" using sint_lt [of d] by simp
  then have "signed_take_bit 63 (sint d - 1) = sint d - 1"
    using h by (intro signed_take_bit_int_eq_self) auto
  then show ?thesis
    by (simp add: sint_word_ariths)
qed

lemma propagated_distance_wraps:
  "sint (- 9223372036854775808 - 1 :: int64) = 9223372036854775807"
  by simp

text \<open>
  Two cases that the claim leaves aside or singles out: a message without answerable
  wants never pours anything into \<open>out\<close>, and a storage error other than
  \<open>ErrNoSuchBlob\<close> makes \<open>Pour\<close> return an error without a reply.
\<close>

lemma wantProc_Pour_silent:
  "list_all (\<lambda>w. \<not> answerable store w) mIn \<Longrightarrow>
   out (snd (wantProc_Pour store wm mIn proc)) = out proc"
proof -
  assume a: "list_all (\<lambda>w. \<not> answerable store w) mIn"
  have h: "snd (snd (pourLoop store wm mIn proc mOut)) = mOut" for mOut
    using a by (induction mIn arbitrary: proc mOut) (auto simp: answerable_def split: sum.splits)
  show ?thesis
    using pourLoop_out [of store wm mIn proc "[]"] h [of "[]"]
    by (auto simp: wantProc_Pour_def split: prod.splits option.splits)
qed

lemma pourLoop_head_bad:
  "sint (Dist w) < 0 \<Longrightarrow> \<not> sizeKnown store w \<Longrightarrow>
   fst (pourLoop store wm (w # mIn) proc mOut) \<noteq> None"
  by (auto simp: sizeKnown_def split: sum.splits)

lemma pourLoop_head_ok:
  "sint (Dist w) < 0 \<longrightarrow> sizeKnown store w \<Longrightarrow>
   \<exists>proc' mOut'. pourLoop store wm (w # mIn) proc mOut = pourLoop store wm mIn proc' mOut'"
  by (auto simp: sizeKnown_def split: sum.splits)

lemma pourLoop_storage_error:
  "\<not> list_all (\<lambda>w. sint (Dist w) < 0 \<longrightarrow> sizeKnown store w) mIn \<Longrightarrow>
   fst (pourLoop store wm mIn proc mOut) \<noteq> None"
proof (induction mIn arbitrary: proc mOut)
  case Nil
  then show ?case by simp
next
  case (Cons w mIn)
  show ?case
  proof (cases "sint (Dist w) < 0 \<longrightarrow> sizeKnown store w")
    case True
    then have "\<not> list_all (\<lambda>w. sint (Dist w) < 0 \<longrightarrow> sizeKnown store w) mIn"
      using Cons.prems by simp
    then show ?thesis
      using Cons.IH pourLoop_head_ok [OF True, of wm mIn proc mOut] by metis
  next
    case False
    then show ?thesis
      using pourLoop_head_bad [of w store wm mIn proc mOut] by blast
  qed
qed

lemma wantProc_Pour_storage_error:
  "\<not> list_all (\<lambda>w. sint (Dist w) < 0 \<longrightarrow> sizeKnown store w) mIn \<Longrightarrow>
   fst (wantProc_Pour store wm mIn proc) \<noteq> None \<and>
   out (snd (wantProc_Pour store wm mIn proc)) = out proc"
  using pourLoop_out [of store wm mIn proc "[]"]
    pourLoop_storage_error [of store mIn wm proc "[]"]
  by (auto simp: wantProc_Pour_def split: prod.splits option.splits)

text \<open>
  Without storage errors. Let the references of the received wants be distinct (they
  are the keys of a map), and let every size lookup either succeed or report
  \<open>ErrNoSuchBlob\<close>. Then for every received want \<open>{ref: dist}\<close> with \<open>dist < 0\<close>: if the
  store has the blob, one reply is poured into \<open>out\<close> and it maps \<open>ref\<close> to the size of the
  blob, which is the length of the stored file and not negative (for a file shorter than
  \<open>2 ^ 63\<close> bytes), and \<open>ref\<close> is no longer in \<open>remoteWants\<close>; otherwise \<open>remoteWants\<close> maps
  \<open>ref\<close> to \<open>dist - 1\<close>. And if no received want is answerable, \<open>Pour\<close> returns \<open>nil\<close> and
  pours nothing into \<open>out\<close>.
\<close>

lemma wantProc_Pour_no_storage_error:
  assumes "distinct (map wantRef mIn)"
    and "list_all (\<lambda>w. sint (Dist w) < 0 \<longrightarrow> sizeKnown store w) mIn"
  shows "(\<forall>w \<in> set mIn. sint (Dist w) < 0 \<longrightarrow>
           (case Size store (wantRef w) of
              Inr s \<Rightarrow>
                (\<exists>reply. poured (out (snd (wantProc_Pour store wm mIn proc)))
                            = poured (out proc) @ [reply] \<and>
                          map_of reply (wantRef w) = Some s) \<and>
                (\<exists>path b. getPath store (wantRef w) = Inr path \<and>
                           files (fsys store) path = Some b \<and> s = of_nat (length b) \<and>
                           (length b < 2 ^ 63 \<longrightarrow> 0 \<le> sint s)) \<and>
                map_of (remoteWants (snd (wantProc_Pour store wm mIn proc))) (wantRef w) = None
            | Inl err \<Rightarrow>
                err = ErrNoSuchBlob \<and>
                map_of (remoteWants (snd (wantProc_Pour store wm mIn proc))) (wantRef w)
                  = Some (Dist w - 1))) \<and>
         (list_all (\<lambda>w. \<not> answerable store w) mIn \<longrightarrow>
            fst (wantProc_Pour store wm mIn proc) = None \<and>
            out (snd (wantProc_Pour store wm mIn proc)) = out proc)"
proof -
  obtain err proc1 mOut where l: "pourLoop store wm mIn proc [] = (err, proc1, mOut)"
    by (cases "pourLoop store wm mIn proc []") auto
  have e: "err = None"
    using pourLoop_no_error [OF assms(2), of wm proc "[]"] l by simp
  have o: "out proc1 = out proc"
    using pourLoop_out [of store wm mIn proc "[]"] l by simp
  have m: "(mOut = []) = list_all (\<lambda>w. \<not> answerable store w) mIn"
    using pourLoop_mOut_empty [OF assms(2), of wm proc "[]"] l by simp
  have r: "remoteWants (snd (wantProc_Pour store wm mIn proc)) = remoteWants proc1"
    using l e by (simp add: wantProc_Pour_def Let_def split: prod.splits)
  have p: "mOut \<noteq> [] \<Longrightarrow>
      poured (out (snd (wantProc_Pour store wm mIn proc))) = poured (out proc) @ [mOut]"
    using l e o by (simp add: wantProc_Pour_def Let_def sink_Pour_def split: prod.splits)
  have q: "mOut = [] \<Longrightarrow> wantProc_Pour store wm mIn proc = (None, proc1)"
    using l e by (simp add: wantProc_Pour_def)
  have first: "case Size store (wantRef w) of
              Inr s \<Rightarrow>
                (\<exists>reply. poured (out (snd (wantProc_Pour store wm mIn proc)))
                            = poured (out proc) @ [reply] \<and>
                          map_of reply (wantRef w) = Some s) \<and>
                (\<exists>path b. getPath store (wantRef w) = Inr path \<and>
                           files (fsys store) path = Some b \<and> s = of_nat (length b) \<and>
                           (length b < 2 ^ 63 \<longrightarrow> 0 \<le> sint s)) \<and>
                map_of (remoteWants (snd (wantProc_Pour store wm mIn proc))) (wantRef w) = None
            | Inl err \<Rightarrow>
                err = ErrNoSuchBlob \<and>
                map_of (remoteWants (snd (wantProc_Pour store wm mIn proc))) (wantRef w)
                  = Some (Dist w - 1)"
    if w: "w \<in> set mIn" and neg: "sint (Dist w) < 0" for w
  proof (cases "Size store (wantRef w)")
    case (Inl err')
    have "sizeKnown store w"
      using assms(2) w neg by (simp add: list_all_iff)
    then have "err' = ErrNoSuchBlob"
      using Inl by (simp add: sizeKnown_def)
    moreover have "map_of (remoteWants proc1) (wantRef w) = Some (Dist w - 1)"
      using pourLoop_entry [OF assms(2) assms(1) w neg, of wm proc "[]"] l Inl by simp
    ultimately show ?thesis using Inl r by simp
  next
    case (Inr s)
    have en: "map_of (remoteWants proc1) (wantRef w) = None \<and> map_of mOut (wantRef w) = Some s"
      using pourLoop_entry [OF assms(2) assms(1) w neg, of wm proc "[]"] l Inr by simp
    then have "mOut \<noteq> []" by auto
    then have po: "poured (out (snd (wantProc_Pour store wm mIn proc))) = poured (out proc) @ [mOut]"
      by (rule p)
    obtain path b where sz: "getPath store (wantRef w) = Inr path"
        "files (fsys store) path = Some b" "s = of_nat (length b)"
      using Size_is_length [OF Inr] by blast
    have "length b < 2 ^ 63 \<longrightarrow> 0 \<le> sint s"
      using sz(3) sint_of_nat_nonneg [of "length b"] by simp
    then show ?thesis
      using Inr en po sz r by auto
  qed
  have second: "fst (wantProc_Pour store wm mIn proc) = None \<and>
            out (snd (wantProc_Pour store wm mIn proc)) = out proc"
    if "list_all (\<lambda>w. \<not> answerable store w) mIn"
    using that m q o by simp
  show ?thesis
    using first second by blast
qed


text \<open>
  With a storage error. The loop runs through the wants in order; up to the first want
  whose size lookup fails with an error other than \<open>ErrNoSuchBlob\<close> it has updated
  \<open>remoteWants\<close>, and there \<open>Pour\<close> returns, before the reply is poured.
\<close>

lemma pourLoop_append:
  "list_all (\<lambda>w. sint (Dist w) < 0 \<longrightarrow> sizeKnown store w) pre \<Longrightarrow>
   pourLoop store wm (pre @ rest) proc mOut =
     pourLoop store wm rest (fst (snd (pourLoop store wm pre proc mOut)))
       (snd (snd (pourLoop store wm pre proc mOut)))"
  by (induction pre arbitrary: proc mOut) (auto simp: sizeKnown_def split: sum.splits)

lemma pourLoop_head_error:
  "sint (Dist w) < 0 \<Longrightarrow> Size store (wantRef w) = Inl err \<Longrightarrow> err \<noteq> ErrNoSuchBlob \<Longrightarrow>
   pourLoop store wm (w # post) proc mOut = (Some (Wrap ''error getting blob size'' err), proc, mOut)"
  by simp

lemma wantProc_Pour_error_at:
  assumes "distinct (map wantRef (pre @ w # post))"
    and "list_all (\<lambda>w. sint (Dist w) < 0 \<longrightarrow> sizeKnown store w) pre"
    and "sint (Dist w) < 0"
    and "Size store (wantRef w) = Inl err"
    and "err \<noteq> ErrNoSuchBlob"
  shows "fst (wantProc_Pour store wm (pre @ w # post) proc)
           = Some (Wrap ''error getting blob size'' err) \<and>
         out (snd (wantProc_Pour store wm (pre @ w # post) proc)) = out proc \<and>
         (\<forall>v \<in> set pre. sint (Dist v) < 0 \<longrightarrow>
            (case Size store (wantRef v) of
               Inr s \<Rightarrow>
                 map_of (remoteWants (snd (wantProc_Pour store wm (pre @ w # post) proc)))
                   (wantRef v) = None
             | Inl e \<Rightarrow>
                 map_of (remoteWants (snd (wantProc_Pour store wm (pre @ w # post) proc)))
                   (wantRef v) = Some (Dist v - 1))) \<and>
         (\<forall>r. r \<notin> wantRef ` set pre \<longrightarrow>
            map_of (remoteWants (snd (wantProc_Pour store wm (pre @ w # post) proc))) r
              = map_of (remoteWants proc) r)"
proof -
  let ?p = "fst (snd (pourLoop store wm pre proc []))"
  let ?m = "snd (snd (pourLoop store wm pre proc []))"
  have l: "pourLoop store wm (pre @ w # post) proc []
      = (Some (Wrap ''error getting blob size'' err), ?p, ?m)"
    unfolding pourLoop_append [OF assms(2)]
    by (rule pourLoop_head_error [OF assms(3,4,5)])
  have r: "wantProc_Pour store wm (pre @ w # post) proc
      = (Some (Wrap ''error getting blob size'' err), ?p)"
    by (simp add: wantProc_Pour_def l case_prod_beta)
  have d: "distinct (map wantRef pre)"
    using assms(1) by simp
  have a: "case Size store (wantRef v) of
               Inr s \<Rightarrow> map_of (remoteWants ?p) (wantRef v) = None
             | Inl e \<Rightarrow> map_of (remoteWants ?p) (wantRef v) = Some (Dist v - 1)"
    if "v \<in> set pre" "sint (Dist v) < 0" for v
    using pourLoop_entry [OF assms(2) d that, of wm proc "[]"]
    by (auto split: sum.splits)
  have b: "map_of (remoteWants ?p) r = map_of (remoteWants proc) r"
    if "r \<notin> wantRef ` set pre" for r
    using pourLoop_remoteWants_other [OF that] .
  have sn: "snd (wantProc_Pour store wm (pre @ w # post) proc) = ?p"
    and fs: "fst (wantProc_Pour store wm (pre @ w # post) proc)
      = Some (Wrap ''error getting blob size'' err)"
    by (simp_all add: r)
  show ?thesis
    unfolding sn fs using a b pourLoop_out [of store wm pre proc "[]"] by blast
qed

text \<open>
  Claim C3, as stated, fails. The store has the blob of \<open>exRef\<close>, and the peer sends
  \<open>{exRef: -1, exRef2: -2}\<close>, where the size lookup for \<open>exRef2\<close> fails with a storage
  error. \<open>Pour\<close> has removed \<open>exRef\<close> from \<open>remoteWants\<close> when it reaches \<open>exRef2\<close>, and
  returns the error there: no reply is sent, so \<open>{exRef: 3}\<close> is in no reply.
\<close>

theorem wantProc_Pour_partial_counterexample:
  "Size exStoreFault exRef = Inr 3 \<and>
   sint (Dist (hd exWants)) < 0 \<and> wantRef (hd exWants) = exRef \<and>
   map_of (remoteWants exProc) exRef = Some (- 3) \<and>
   wantProc_Pour exStoreFault \<lparr>wants = [], wantSink = emptySink\<rparr> exWants exProc
     = (Some (Wrap ''error getting blob size''
               (Wrap ''error getting file info'' (Errorf ''permission denied''))),
        \<lparr>remoteWants = [], out = emptySink, fetches = []\<rparr>) \<and>
   poured (out (snd (wantProc_Pour exStoreFault \<lparr>wants = [], wantSink = emptySink\<rparr>
     exWants exProc))) = []"
  using ex_Size_fault ex_refs_differ
  by (simp add: wantProc_Pour_def exWants_def exProc_def emptySink_def)

text \<open>
  Claim C3, amended. Let the references of the received wants be distinct. When every
  size lookup for a want with \<open>dist < 0\<close> either succeeds or reports \<open>ErrNoSuchBlob\<close>,
  then for every received want \<open>{ref: dist}\<close> with \<open>dist < 0\<close>: if the store has the blob,
  one reply is poured into \<open>out\<close> and it maps \<open>ref\<close> to the size of the blob (the length
  of the stored file, not negative for a file shorter than \<open>2 ^ 63\<close> bytes), and \<open>ref\<close>
  is no longer in \<open>remoteWants\<close>; otherwise \<open>remoteWants\<close> maps \<open>ref\<close> to \<open>dist - 1\<close>; and
  if no received want is answerable, \<open>Pour\<close> returns \<open>nil\<close> and pours nothing into
  \<open>out\<close>. When instead the size lookup of a want with \<open>dist < 0\<close> fails with another
  error, and of no want before it, \<open>Pour\<close> returns that error, wrapped, and pours
  nothing into \<open>out\<close>; the wants before it have been applied to \<open>remoteWants\<close> (a
  reference the store has is removed, a missing one is mapped to \<open>dist - 1\<close>), and
  \<open>remoteWants\<close> is unchanged at every other reference.
\<close>

theorem wantProc_Pour_answers:
  assumes "distinct (map wantRef mIn)"
  shows "(list_all (\<lambda>w. sint (Dist w) < 0 \<longrightarrow> sizeKnown store w) mIn \<longrightarrow>
           (\<forall>w \<in> set mIn. sint (Dist w) < 0 \<longrightarrow>
              (case Size store (wantRef w) of
                 Inr s \<Rightarrow>
                   (\<exists>reply. poured (out (snd (wantProc_Pour store wm mIn proc)))
                               = poured (out proc) @ [reply] \<and>
                             map_of reply (wantRef w) = Some s) \<and>
                   (\<exists>path b. getPath store (wantRef w) = Inr path \<and>
                              files (fsys store) path = Some b \<and> s = of_nat (length b) \<and>
                              (length b < 2 ^ 63 \<longrightarrow> 0 \<le> sint s)) \<and>
                   map_of (remoteWants (snd (wantProc_Pour store wm mIn proc))) (wantRef w) = None
               | Inl err \<Rightarrow>
                   err = ErrNoSuchBlob \<and>
                   map_of (remoteWants (snd (wantProc_Pour store wm mIn proc))) (wantRef w)
                     = Some (Dist w - 1))) \<and>
           (list_all (\<lambda>w. \<not> answerable store w) mIn \<longrightarrow>
              fst (wantProc_Pour store wm mIn proc) = None \<and>
              out (snd (wantProc_Pour store wm mIn proc)) = out proc)) \<and>
         (\<forall>pre w post err.
            mIn = pre @ w # post \<longrightarrow>
            list_all (\<lambda>w. sint (Dist w) < 0 \<longrightarrow> sizeKnown store w) pre \<longrightarrow>
            sint (Dist w) < 0 \<longrightarrow> Size store (wantRef w) = Inl err \<longrightarrow> err \<noteq> ErrNoSuchBlob \<longrightarrow>
            fst (wantProc_Pour store wm mIn proc) = Some (Wrap ''error getting blob size'' err) \<and>
            out (snd (wantProc_Pour store wm mIn proc)) = out proc \<and>
            (\<forall>v \<in> set pre. sint (Dist v) < 0 \<longrightarrow>
               (case Size store (wantRef v) of
                  Inr s \<Rightarrow>
                    map_of (remoteWants (snd (wantProc_Pour store wm mIn proc))) (wantRef v) = None
                | Inl e \<Rightarrow>
                    map_of (remoteWants (snd (wantProc_Pour store wm mIn proc))) (wantRef v)
                      = Some (Dist v - 1))) \<and>
            (\<forall>r. r \<notin> wantRef ` set pre \<longrightarrow>
               map_of (remoteWants (snd (wantProc_Pour store wm mIn proc))) r
                 = map_of (remoteWants proc) r))"
proof (intro conjI impI allI)
  assume "list_all (\<lambda>w. sint (Dist w) < 0 \<longrightarrow> sizeKnown store w) mIn"
  from wantProc_Pour_no_storage_error [OF assms this, of wm proc]
  show "\<forall>w \<in> set mIn. sint (Dist w) < 0 \<longrightarrow>
              (case Size store (wantRef w) of
                 Inr s \<Rightarrow>
                   (\<exists>reply. poured (out (snd (wantProc_Pour store wm mIn proc)))
                               = poured (out proc) @ [reply] \<and>
                             map_of reply (wantRef w) = Some s) \<and>
                   (\<exists>path b. getPath store (wantRef w) = Inr path \<and>
                              files (fsys store) path = Some b \<and> s = of_nat (length b) \<and>
                              (length b < 2 ^ 63 \<longrightarrow> 0 \<le> sint s)) \<and>
                   map_of (remoteWants (snd (wantProc_Pour store wm mIn proc))) (wantRef w) = None
               | Inl err \<Rightarrow>
                   err = ErrNoSuchBlob \<and>
                   map_of (remoteWants (snd (wantProc_Pour store wm mIn proc))) (wantRef w)
                     = Some (Dist w - 1))"
    by (rule conjunct1)
next
  assume "list_all (\<lambda>w. sint (Dist w) < 0 \<longrightarrow> sizeKnown store w) mIn"
    and "list_all (\<lambda>w. \<not> answerable store w) mIn"
  with wantProc_Pour_no_storage_error [OF assms, of store wm proc]
  show "fst (wantProc_Pour store wm mIn proc) = None" by blast
next
  assume "list_all (\<lambda>w. sint (Dist w) < 0 \<longrightarrow> sizeKnown store w) mIn"
    and "list_all (\<lambda>w. \<not> answerable store w) mIn"
  with wantProc_Pour_no_storage_error [OF assms, of store wm proc]
  show "out (snd (wantProc_Pour store wm mIn proc)) = out proc" by blast
next
  fix pre w post err
  assume h: "mIn = pre @ w # post"
    "list_all (\<lambda>w. sint (Dist w) < 0 \<longrightarrow> sizeKnown store w) pre"
    "sint (Dist w) < 0" "Size store (wantRef w) = Inl err" "err \<noteq> ErrNoSuchBlob"
  have d: "distinct (map wantRef (pre @ w # post))"
    using assms h(1) by simp
  note e = wantProc_Pour_error_at [OF d h(2,3,4,5), of wm proc, folded h(1)]
  show "fst (wantProc_Pour store wm mIn proc) = Some (Wrap ''error getting blob size'' err)"
    using e by (rule conjunct1)
  show "out (snd (wantProc_Pour store wm mIn proc)) = out proc"
    using e by blast
  show "\<forall>v \<in> set pre. sint (Dist v) < 0 \<longrightarrow>
               (case Size store (wantRef v) of
                  Inr s \<Rightarrow>
                    map_of (remoteWants (snd (wantProc_Pour store wm mIn proc))) (wantRef v) = None
                | Inl e \<Rightarrow>
                    map_of (remoteWants (snd (wantProc_Pour store wm mIn proc))) (wantRef v)
                      = Some (Dist v - 1))"
    using e by blast
  show "map_of (remoteWants (snd (wantProc_Pour store wm mIn proc))) r
                 = map_of (remoteWants proc) r" if "r \<notin> wantRef ` set pre" for r
    using e that by blast
qed

text \<open>
  The store has the blob of \<open>exRef\<close>, three bytes long, and not that of \<open>exRef2\<close>. The
  peer wants both: the reply gives the size of the first, which leaves \<open>remoteWants\<close>,
  and the second is recorded one hop further away. A message with the second alone gets
  no reply. On the store whose size lookup for \<open>exRef2\<close> fails, the same message makes
  \<open>Pour\<close> return the error without a reply, with \<open>exRef\<close> removed from \<open>remoteWants\<close>.
\<close>

theorem wantProc_Pour_answers_witness:
  "distinct (map wantRef exWants) \<and>
   list_all (\<lambda>w. sint (Dist w) < 0 \<longrightarrow> sizeKnown exStoreHave w) exWants \<and>
   Size exStoreHave exRef = Inr 3 \<and>
   Size exStoreHave exRef2 = Inl ErrNoSuchBlob \<and>
   poured (out (snd (wantProc_Pour exStoreHave \<lparr>wants = [], wantSink = emptySink\<rparr> exWants exProc)))
     = [[(exRef, 3)]] \<and>
   map_of (remoteWants (snd (wantProc_Pour exStoreHave \<lparr>wants = [], wantSink = emptySink\<rparr>
     exWants exProc))) exRef = None \<and>
   map_of (remoteWants (snd (wantProc_Pour exStoreHave \<lparr>wants = [], wantSink = emptySink\<rparr>
     exWants exProc))) exRef2 = Some (- 3) \<and>
   wantProc_Pour exStoreHave \<lparr>wants = [], wantSink = emptySink\<rparr>
     [\<lparr>wantRef = exRef2, Dist = - 2\<rparr>] exProc
     = (None, exProc\<lparr>remoteWants := [(exRef, - 3), (exRef2, - 3)]\<rparr>) \<and>
   Size exStoreFault exRef2
     = Inl (Wrap ''error getting file info'' (Errorf ''permission denied'')) \<and>
   fst (wantProc_Pour exStoreFault \<lparr>wants = [], wantSink = emptySink\<rparr> exWants exProc)
     = Some (Wrap ''error getting blob size''
              (Wrap ''error getting file info'' (Errorf ''permission denied''))) \<and>
   out (snd (wantProc_Pour exStoreFault \<lparr>wants = [], wantSink = emptySink\<rparr> exWants exProc))
     = emptySink \<and>
   map_of (remoteWants (snd (wantProc_Pour exStoreFault \<lparr>wants = [], wantSink = emptySink\<rparr>
     exWants exProc))) exRef = None \<and>
   map_of (remoteWants (snd (wantProc_Pour exStoreFault \<lparr>wants = [], wantSink = emptySink\<rparr>
     exWants exProc))) exRef2 = None"
proof -
  let ?wm = "\<lparr>wants = [], wantSink = emptySink\<rparr>"
  let ?w1 = "\<lparr>wantRef = exRef, Dist = - 1\<rparr>"
  let ?w2 = "\<lparr>wantRef = exRef2, Dist = - 2\<rparr>"
  let ?err = "Wrap ''error getting file info'' (Errorf ''permission denied'')"
  have d: "distinct (map wantRef exWants)"
    using ex_refs_differ by (simp add: exWants_def)
  have k: "list_all (\<lambda>w. sint (Dist w) < 0 \<longrightarrow> sizeKnown exStoreHave w) exWants"
    using ex_Size by (simp add: exWants_def sizeKnown_def)
  note th = wantProc_Pour_answers [OF d, of exStoreHave ?wm exProc, THEN conjunct1, THEN mp, OF k]
  have p: "wantProc_Pour exStoreHave ?wm exWants exProc
      = (None, \<lparr>remoteWants = [(exRef2, - 3)],
                out = \<lparr>poured = [[(exRef, 3)]], pourErr = None\<rparr>, fetches = []\<rparr>)"
    using ex_Size ex_refs_differ
    by (simp add: wantProc_Pour_def exWants_def exProc_def emptySink_def sink_Pour_def
        errors_Wrap_def)
  have q: "wantProc_Pour exStoreHave ?wm [?w2] exProc
     = (None, exProc\<lparr>remoteWants := [(exRef, - 3), (exRef2, - 3)]\<rparr>)"
    using ex_Size ex_refs_differ
    by (simp add: wantProc_Pour_def exProc_def)
  have good: "distinct (map wantRef exWants) \<and>
   list_all (\<lambda>w. sint (Dist w) < 0 \<longrightarrow> sizeKnown exStoreHave w) exWants \<and>
   Size exStoreHave exRef = Inr 3 \<and>
   Size exStoreHave exRef2 = Inl ErrNoSuchBlob \<and>
   poured (out (snd (wantProc_Pour exStoreHave ?wm exWants exProc))) = [[(exRef, 3)]] \<and>
   map_of (remoteWants (snd (wantProc_Pour exStoreHave ?wm exWants exProc))) exRef = None \<and>
   map_of (remoteWants (snd (wantProc_Pour exStoreHave ?wm exWants exProc))) exRef2 = Some (- 3) \<and>
   wantProc_Pour exStoreHave ?wm [?w2] exProc
     = (None, exProc\<lparr>remoteWants := [(exRef, - 3), (exRef2, - 3)]\<rparr>)"
    using th d k p q ex_Size ex_refs_differ by simp
  have sp: "exWants = [?w1] @ ?w2 # []"
    by (simp add: exWants_def)
  have kp: "list_all (\<lambda>w. sint (Dist w) < 0 \<longrightarrow> sizeKnown exStoreFault w) [?w1]"
    using ex_Size_fault by (simp add: sizeKnown_def)
  have ng: "sint (Dist ?w2) < 0"
    by simp
  have sz: "Size exStoreFault (wantRef ?w2) = Inl ?err"
    using ex_Size_fault by simp
  have ne: "?err \<noteq> ErrNoSuchBlob"
    by simp
  note e = wantProc_Pour_answers [OF d, of exStoreFault ?wm exProc, THEN conjunct2, rule_format,
      OF sp kp ng sz ne]
  have e1: "fst (wantProc_Pour exStoreFault ?wm exWants exProc)
      = Some (Wrap ''error getting blob size'' ?err)"
    using e by (rule conjunct1)
  have e2: "out (snd (wantProc_Pour exStoreFault ?wm exWants exProc)) = emptySink"
    using e by (simp add: exProc_def)
  have e3: "map_of (remoteWants (snd (wantProc_Pour exStoreFault ?wm exWants exProc))) exRef = None"
    using e [THEN conjunct2, THEN conjunct2, THEN conjunct1, rule_format, of ?w1] ex_Size_fault
    by simp
  have e4: "map_of (remoteWants (snd (wantProc_Pour exStoreFault ?wm exWants exProc))) exRef2 = None"
    using e [THEN conjunct2, THEN conjunct2, THEN conjunct2, rule_format, of exRef2] ex_refs_differ
    by (simp add: exProc_def)
  show ?thesis
    using good sz e1 e2 e3 e4 by simp
qed

end
